theory Spec2Isabelle
  imports Main "HOL-Library.AList"
begin

text \<open>
  Provider resolution and environment selection of Garden. The first part is the model:
  the provider resolution task of \<open>tasks/resolve-provider.ts\<close>, translated from its
  source, and the environment selection of \<open>config/project.ts\<close>, written from the
  specification and checked against its unit tests. The second part holds the properties.
\<close>

section \<open>Values shared by the configuration code\<close>

text \<open>
  Provider configurations and variables are plain JSON-like values. An object keeps its
  keys in insertion order, so it is an association list; \<open>AList.update\<close> assigns a key
  (an existing key keeps its position, a new one goes last) and \<open>AList.delete\<close>
  removes one, as a property assignment and \<open>delete\<close>/\<open>omit\<close> do in the source.
\<close>

datatype json =
    JNull
  | JBool bool
  | JNum int
  | JStr string
  | JArr "json list"
  | JObj "(string \<times> json) list"

type_synonym obj = "(string \<times> json) list"

text \<open>The exception classes of \<open>exceptions.ts\<close> that the code under study raises, each
  with its message. \<open>TypeError\<close> is the runtime's own error for a property read on
  \<open>undefined\<close>; \<open>RuntimeError\<close> stands for anything else a collaborator may raise.\<close>

datatype error =
    ConfigurationError string
  | ParameterError string
  | PluginError string
  | TypeError string
  | RuntimeError string

section \<open>The provider resolution task (\<open>tasks/resolve-provider.ts\<close>)\<close>

subsection \<open>Data\<close>

text \<open>\<open>ProviderConfig\<close>: the provider's name and every other key of the object
  (\<open>path\<close>, \<open>environments\<close> and the plugin's own settings).\<close>

record ProviderConfig =
  pc_name :: string
  pc_fields :: obj

text \<open>\<open>GardenPlugin\<close>, with the fields the task reads. The schema type is left open:
  schemas belong to the validation engine.\<close>

record 'sch GardenPlugin =
  gp_name :: string
  gp_base :: "string option"
  gp_dependencies :: "string list"
  gp_configSchema :: "'sch option"

record EnvironmentStatus =
  es_ready :: bool
  es_outputs :: obj

datatype Provider =
  Provider (p_name: string) (p_dependencies: "Provider list") (p_moduleConfigs: "json list")
    (p_config: ProviderConfig) (p_status: EnvironmentStatus)

text \<open>\<open>ProviderConfigContext\<close>: what template strings of a provider config may refer to.\<close>

record ProviderConfigContext =
  ctx_projectName :: string
  ctx_environmentName :: string
  ctx_providers :: "Provider list"
  ctx_variables :: obj
  ctx_secrets :: obj

record ConfigureProviderParams =
  cp_environmentName :: string
  cp_namespace :: "string option"
  cp_pluginName :: string
  cp_config :: ProviderConfig
  cp_projectName :: string
  cp_projectRoot :: string
  cp_dependencies :: "Provider list"

record ConfigureProviderResult =
  cr_config :: ProviderConfig
  cr_moduleConfigs :: "json list option"

text \<open>Every call that leaves the task is recorded, in order, with what was passed.\<close>

datatype 'sch event =
    EvResolveTemplateStrings ProviderConfig
  | EvValidate 'sch ProviderConfig string
  | EvConfigureProvider ConfigureProviderParams
  | EvGetEnvironmentStatus string
  | EvPrepareEnvironment string EnvironmentStatus bool

text \<open>The \<open>Garden\<close> instance as the task sees it. \<open>g_resolvedProviders\<close> is the
  dictionary \<open>garden["resolvedProviders"]\<close>; \<open>g_calls\<close> is the record of outgoing
  calls. Both are threaded through every step.\<close>

record 'sch Garden =
  g_resolvedProviders :: "string \<rightharpoonup> Provider"
  g_projectRoot :: string
  g_projectName :: string
  g_environmentName :: string
  g_namespace :: "string option"
  g_variables :: obj
  g_secrets :: obj
  g_rawProviderConfigs :: "ProviderConfig list"
  g_plugins :: "'sch GardenPlugin list"
  g_calls :: "'sch event list"

text \<open>The functions the task imports from other modules: the template engine
  (\<open>template-string\<close>, \<open>config/provider\<close>), the validation engine (\<open>config/validation\<close>,
  \<open>config/common\<close>) and the plugin registry (\<open>plugins\<close>). They are parameters of the model,
  so what is proved of the task holds whatever they compute.\<close>

record 'sch Imports =
  resolveTemplateStrings :: "ProviderConfig \<Rightarrow> ProviderConfigContext \<Rightarrow> error + ProviderConfig"
  validateWithPath :: "ProviderConfig \<Rightarrow> 'sch \<Rightarrow> string \<Rightarrow> string \<Rightarrow> error + ProviderConfig"
  joi_object :: "'sch"
  unknown :: "'sch \<Rightarrow> 'sch"
  getPluginBases :: "'sch GardenPlugin \<Rightarrow> (string \<rightharpoonup> 'sch GardenPlugin) \<Rightarrow> 'sch GardenPlugin list"
  getPluginBaseNames :: "string \<Rightarrow> (string \<rightharpoonup> 'sch GardenPlugin) \<Rightarrow> string list"
  getProviderTemplateReferences :: "ProviderConfig \<Rightarrow> string list"

text \<open>The action router: \<open>configureProvider\<close> is its method; the two handler tables
  tell which plugins registered a \<open>getEnvironmentStatus\<close> or a
  \<open>prepareEnvironment\<close> handler. A handler may raise.\<close>

record ActionRouter =
  ar_configureProvider :: "ConfigureProviderParams \<Rightarrow> error + ConfigureProviderResult"
  ar_getEnvironmentStatus :: "string \<rightharpoonup> (Provider \<Rightarrow> error + EnvironmentStatus)"
  ar_prepareEnvironment ::
    "string \<rightharpoonup> (Provider \<Rightarrow> bool \<Rightarrow> EnvironmentStatus \<Rightarrow> error + EnvironmentStatus)"

text \<open>The task's own fields. \<open>t_plugin\<close> is optional because \<open>resolveDependencies\<close>
  fills it from a dictionary lookup (\<open>plugins[depName]\<close>).\<close>

record 'sch ResolveProviderTask =
  t_config :: ProviderConfig
  t_plugin :: "'sch GardenPlugin option"
  t_forceInit :: bool

subsection \<open>Small helpers\<close>

definition record_call :: "'sch event \<Rightarrow> 'sch Garden \<Rightarrow> 'sch Garden" where
  "record_call e g = g\<lparr>g_calls := g_calls g @ [e]\<rparr>"

definition omit_path :: "ProviderConfig \<Rightarrow> ProviderConfig" where
  \<comment> \<open>\<open>omit(config, "path")\<close>\<close>
  "omit_path c = c\<lparr>pc_fields := AList.delete ''path'' (pc_fields c)\<rparr>"

definition set_path :: "string \<Rightarrow> ProviderConfig \<Rightarrow> ProviderConfig" where
  \<comment> \<open>\<open>resolvedConfig.path = this.garden.projectRoot\<close>\<close>
  "set_path root c = c\<lparr>pc_fields := AList.update ''path'' (JStr root) (pc_fields c)\<rparr>"

definition keyBy :: "'sch GardenPlugin list \<Rightarrow> (string \<rightharpoonup> 'sch GardenPlugin)" where
  \<comment> \<open>lodash \<open>keyBy(plugins, "name")\<close>: a later plugin of the same name wins\<close>
  "keyBy ps = foldl (\<lambda>m p. m(gp_name p \<mapsto> p)) Map.empty ps"

text \<open>Modelled from the spec: \<open>defaultEnvironmentStatus\<close> of
  \<open>types/plugin/provider/getEnvironmentStatus.ts\<close> is not in the sources; the spec's
  default is "report ready with no detail".\<close>

definition defaultEnvironmentStatus :: EnvironmentStatus where
  "defaultEnvironmentStatus = \<lparr>es_ready = True, es_outputs = []\<rparr>"

text \<open>Modelled from the spec: \<open>providerFromConfig\<close> of \<open>config/provider.ts\<close> is not in
  the sources; the spec's Provider record holds the name, the final config, the
  dependency providers, the module configs and the status.\<close>

definition providerFromConfig ::
  "ProviderConfig \<Rightarrow> Provider list \<Rightarrow> json list \<Rightarrow> EnvironmentStatus \<Rightarrow> Provider" where
  "providerFromConfig config dependencies moduleConfigs status =
     Provider (pc_name config) dependencies moduleConfigs config status"

subsection \<open>\<open>ensurePrepared\<close>\<close>

text \<open>\<open>actions["getActionHandler"]({actionType, pluginName, defaultHandler})\<close>: the
  plugin's handler if it registered one, the default otherwise.\<close>

definition getActionHandler :: "(string \<rightharpoonup> 'h) \<Rightarrow> string \<Rightarrow> 'h \<Rightarrow> 'h" where
  "getActionHandler handlers pluginName defaultHandler =
     (case handlers pluginName of Some h \<Rightarrow> h | None \<Rightarrow> defaultHandler)"

definition not_ready_message :: "string \<Rightarrow> string" where
  "not_ready_message pluginName =
     ''Provider '' @ pluginName @
     '' reports status as not ready and could not prepare the configured environment.''"

definition ensurePrepared ::
  "ActionRouter \<Rightarrow> bool \<Rightarrow> Provider \<Rightarrow> 'sch Garden \<Rightarrow> (error + EnvironmentStatus) \<times> 'sch Garden"
where
  "ensurePrepared actions forceInit tmpProvider g =
     (let pluginName = p_name tmpProvider;
          handler = getActionHandler (ar_getEnvironmentStatus actions) pluginName
                      (\<lambda>_. Inr defaultEnvironmentStatus);
          g1 = record_call (EvGetEnvironmentStatus pluginName) g
      in case handler tmpProvider of
           Inl e \<Rightarrow> (Inl e, g1)
         | Inr status \<Rightarrow>
             if forceInit \<or> \<not> es_ready status then
               (let prepareHandler = getActionHandler (ar_prepareEnvironment actions) pluginName
                                       (\<lambda>_ _ st. Inr st);
                    g2 = record_call (EvPrepareEnvironment pluginName status forceInit) g1
                in case prepareHandler tmpProvider forceInit status of
                     Inl e \<Rightarrow> (Inl e, g2)
                   | Inr status' \<Rightarrow>
                       if \<not> es_ready status' then (Inl (PluginError (not_ready_message pluginName)), g2)
                       else (Inr status', g2))
             else if \<not> es_ready status then (Inl (PluginError (not_ready_message pluginName)), g1)
             else (Inr status, g1))"

subsection \<open>\<open>resolveDependencies\<close>\<close>

definition quoted :: "string \<Rightarrow> string" where
  \<comment> \<open>a name between single quotes, as the messages print it\<close>
  "quoted s = CHR 0x27 # s @ [CHR 0x27]"

definition missing_dependency_message :: "string \<Rightarrow> string \<Rightarrow> string" where
  "missing_dependency_message providerName depName =
     ''Provider '' @ quoted providerName @ '' depends on provider '' @ quoted depName @
     '', which is not configured. '' @
     ''You need to add '' @ quoted depName @ '' to your project configuration for the '' @
     quoted providerName @ '' to work.''"

definition matchDependencies ::
  "'sch Imports \<Rightarrow> 'sch Garden \<Rightarrow> (string \<rightharpoonup> 'sch GardenPlugin) \<Rightarrow> string \<Rightarrow> ProviderConfig list"
where
  \<comment> \<open>a provider matches if its name matches directly, or it inherits from a base named \<open>depName\<close>\<close>
  "matchDependencies hs g plugins depName =
     filter (\<lambda>c. pc_name c = depName \<or> depName \<in> set (getPluginBaseNames hs (pc_name c) plugins))
       (g_rawProviderConfigs g)"

text \<open>The explicit dependencies are checked in order; the first one without a match
  raises. The sub-tasks take \<open>plugins[depName]\<close> as their plugin.\<close>

definition resolveDependencies ::
  "'sch Imports \<Rightarrow> 'sch ResolveProviderTask \<Rightarrow> 'sch Garden \<Rightarrow> error + 'sch ResolveProviderTask list"
where
  "resolveDependencies hs task g =
     (case t_plugin task of
        None \<Rightarrow> Inl (TypeError ''Cannot read property dependencies of undefined'')
      | Some plugin \<Rightarrow>
          (let explicitDeps = gp_dependencies plugin;
               implicitDeps = filter (\<lambda>depName. depName \<notin> set explicitDeps)
                                (getProviderTemplateReferences hs (t_config task));
               allDeps = explicitDeps @ implicitDeps;
               plugins = keyBy (g_plugins g)
           in case find (\<lambda>depName. matchDependencies hs g plugins depName = []) explicitDeps of
                Some depName \<Rightarrow>
                  Inl (ConfigurationError
                         (missing_dependency_message (pc_name (t_config task)) depName))
              | None \<Rightarrow>
                  Inr (concat (map (\<lambda>depName.
                         map (\<lambda>config. \<lparr>t_config = config, t_plugin = plugins depName,
                                         t_forceInit = t_forceInit task\<rparr>)
                           (matchDependencies hs g plugins depName)) allDeps))))"

subsection \<open>\<open>process\<close>\<close>

definition validateConfig ::
  "'sch Imports \<Rightarrow> 'sch GardenPlugin \<Rightarrow> ProviderConfig \<Rightarrow> 'sch Garden
   \<Rightarrow> (error + ProviderConfig) \<times> 'sch Garden"
where
  \<comment> \<open>the closure \<open>validateConfig\<close>: the plugin's own schema, or \<open>joi.object()\<close>\<close>
  "validateConfig hs plugin config g =
     (let schema = (case gp_configSchema plugin of Some s \<Rightarrow> s | None \<Rightarrow> joi_object hs);
          arg = omit_path config
      in (validateWithPath hs arg schema (g_projectRoot g) ''provider configuration'',
          record_call (EvValidate schema arg ''provider configuration'') g))"

definition base_config_type :: "string \<Rightarrow> string" where
  "base_config_type baseName =
     ''provider configuration (base schema from '' @ quoted baseName @ '' plugin)''"

text \<open>The loop over the base plugins: a base without a schema is skipped; every other
  base validates the current \<open>resolvedConfig\<close> without its path, and the result
  becomes the current \<open>resolvedConfig\<close>.\<close>

fun validateBases ::
  "'sch Imports \<Rightarrow> 'sch GardenPlugin list \<Rightarrow> ProviderConfig \<Rightarrow> 'sch Garden
   \<Rightarrow> (error + ProviderConfig) \<times> 'sch Garden"
where
  "validateBases hs [] resolvedConfig g = (Inr resolvedConfig, g)"
| "validateBases hs (base # bases) resolvedConfig g =
     (case gp_configSchema base of
        None \<Rightarrow> validateBases hs bases resolvedConfig g
      | Some s \<Rightarrow>
          (let schema = unknown hs s;
               arg = omit_path resolvedConfig;
               configType = base_config_type (gp_name base);
               g1 = record_call (EvValidate schema arg configType) g
           in case validateWithPath hs arg schema (g_projectRoot g) configType of
                Inl e \<Rightarrow> (Inl e, g1)
              | Inr validated \<Rightarrow> validateBases hs bases validated g1))"

text \<open>What \<open>process\<close> does once \<open>configureProvider\<close> has returned.\<close>

definition afterConfigure ::
  "'sch Imports \<Rightarrow> ActionRouter \<Rightarrow> 'sch ResolveProviderTask \<Rightarrow> 'sch GardenPlugin \<Rightarrow> Provider list
   \<Rightarrow> ConfigureProviderResult \<Rightarrow> 'sch Garden \<Rightarrow> (error + Provider) \<times> 'sch Garden"
where
  "afterConfigure hs actions task plugin resolvedProviders configureOutput g =
     (case validateConfig hs plugin (cr_config configureOutput) g of
        (Inl e, g1) \<Rightarrow> (Inl e, g1)
      | (Inr validated, g1) \<Rightarrow>
          (let resolvedConfig = set_path (g_projectRoot g1) validated;
               moduleConfigs = (case cr_moduleConfigs configureOutput of
                                  Some ms \<Rightarrow> ms | None \<Rightarrow> []);
               bases = getPluginBases hs plugin (keyBy (g_plugins g1))
           in case validateBases hs bases resolvedConfig g1 of
                (Inl e, g2) \<Rightarrow> (Inl e, g2)
              | (Inr resolvedConfig', g2) \<Rightarrow>
                  (let tmpProvider = providerFromConfig resolvedConfig' resolvedProviders
                                       moduleConfigs defaultEnvironmentStatus
                   in case ensurePrepared actions (t_forceInit task) tmpProvider g2 of
                        (Inl e, g3) \<Rightarrow> (Inl e, g3)
                      | (Inr status, g3) \<Rightarrow>
                          (Inr (providerFromConfig resolvedConfig' resolvedProviders
                                  moduleConfigs status), g3))))"

definition process ::
  "'sch Imports \<Rightarrow> ActionRouter \<Rightarrow> 'sch ResolveProviderTask \<Rightarrow> Provider list \<Rightarrow> 'sch Garden
   \<Rightarrow> (error + Provider) \<times> 'sch Garden"
where
  "process hs actions task resolvedProviders g =
     (case g_resolvedProviders g (pc_name (t_config task)) of
        Some alreadyResolvedProviders \<Rightarrow> (Inr alreadyResolvedProviders, g)
      | None \<Rightarrow>
          (let context = \<lparr>ctx_projectName = g_projectName g,
                          ctx_environmentName = g_environmentName g,
                          ctx_providers = resolvedProviders,
                          ctx_variables = g_variables g,
                          ctx_secrets = g_secrets g\<rparr>;
               g1 = record_call (EvResolveTemplateStrings (t_config task)) g
           in case resolveTemplateStrings hs (t_config task) context of
                Inl e \<Rightarrow> (Inl e, g1)
              | Inr resolvedConfig \<Rightarrow>
                  (case t_plugin task of
                     None \<Rightarrow> (Inl (TypeError ''Cannot read property configSchema of undefined''), g1)
                   | Some plugin \<Rightarrow>
                       (case validateConfig hs plugin resolvedConfig g1 of
                          (Inl e, g2) \<Rightarrow> (Inl e, g2)
                        | (Inr validated, g2) \<Rightarrow>
                            (let params = \<lparr>cp_environmentName = g_environmentName g2,
                                           cp_namespace = g_namespace g2,
                                           cp_pluginName = pc_name resolvedConfig,
                                           cp_config = set_path (g_projectRoot g2) validated,
                                           cp_projectName = g_projectName g2,
                                           cp_projectRoot = g_projectRoot g2,
                                           cp_dependencies = resolvedProviders\<rparr>;
                                 g3 = record_call (EvConfigureProvider params) g2
                             in case ar_configureProvider actions params of
                                  Inl e \<Rightarrow> (Inl e, g3)
                                | Inr configureOutput \<Rightarrow>
                                    afterConfigure hs actions task plugin resolvedProviders
                                      configureOutput g3)))))"

text \<open>A step that only appends to the record of calls leaves every other field of the
  \<open>Garden\<close> instance as it was.\<close>

definition appends_calls :: "'sch Garden \<Rightarrow> 'sch Garden \<Rightarrow> bool" where
  "appends_calls g g' \<longleftrightarrow> (\<exists>cs. g' = g\<lparr>g_calls := g_calls g @ cs\<rparr>)"

text \<open>How often \<open>configureProvider\<close> was invoked, read off the record of calls.\<close>

fun is_configure_call :: "'sch event \<Rightarrow> bool" where
  "is_configure_call (EvConfigureProvider _) = True"
| "is_configure_call _ = False"

definition count_configure_calls :: "'sch event list \<Rightarrow> nat" where
  "count_configure_calls cs = length (filter is_configure_call cs)"

text \<open>Which recorded calls are validations.\<close>

fun is_validate_call :: "'sch event \<Rightarrow> bool" where
  "is_validate_call (EvValidate _ _ _) = True"
| "is_validate_call _ = False"

text \<open>The validation call the loop over the bases makes for one base and the config
  current at that point.\<close>

definition base_validation :: "'sch Imports \<Rightarrow> 'sch GardenPlugin \<times> ProviderConfig \<Rightarrow> 'sch event" where
  "base_validation hs bc =
     EvValidate (unknown hs (the (gp_configSchema (fst bc)))) (omit_path (snd bc))
       (base_config_type (gp_name (fst bc)))"

text \<open>The schema \<open>validateConfig\<close> uses (\<open>this.plugin.configSchema || joi.object()\<close>), and
  the bases of the task's plugin that have a schema, in the order of \<open>getPluginBases\<close>.\<close>

definition own_schema :: "'sch Imports \<Rightarrow> 'sch GardenPlugin \<Rightarrow> 'sch" where
  "own_schema hs plugin = (case gp_configSchema plugin of Some s \<Rightarrow> s | None \<Rightarrow> joi_object hs)"

definition bases_with_schema :: "'sch Imports \<Rightarrow> 'sch GardenPlugin \<Rightarrow> 'sch Garden \<Rightarrow> 'sch GardenPlugin list" where
  "bases_with_schema hs plugin g =
     filter (\<lambda>b. gp_configSchema b \<noteq> None) (getPluginBases hs plugin (keyBy (g_plugins g)))"

section \<open>Environment selection (\<open>config/project.ts\<close>)\<close>

text \<open>
  This part follows sections 4.1 to 4.4 of the specification. What the unit tests of
  \<open>pickEnvironment\<close> and \<open>parseEnvironment\<close> expect is proved of it further down.
\<close>

subsection \<open>JSON Merge Patch\<close>

text \<open>Modelled from the spec: the patch algebra of section 4.3 and the glossary (RFC 7396),
  which the code takes from a library. A patch that is not an object replaces the target;
  a patch object is applied key by key to the target (to an empty object when the target
  is not an object): a \<open>null\<close> deletes the key, any other value is merged into what the
  target has under the key.\<close>

fun merge_patch :: "json \<Rightarrow> json \<Rightarrow> json"
  and patch_fields :: "obj \<Rightarrow> obj \<Rightarrow> obj"
where
  "merge_patch target (JObj ps) =
     JObj (patch_fields (case target of JObj ts \<Rightarrow> ts | _ \<Rightarrow> []) ps)"
| "merge_patch target JNull = JNull"
| "merge_patch target (JBool b) = JBool b"
| "merge_patch target (JNum n) = JNum n"
| "merge_patch target (JStr s) = JStr s"
| "merge_patch target (JArr xs) = JArr xs"
| "patch_fields ts [] = ts"
| "patch_fields ts (kv # ps) =
     patch_fields
       (if snd kv = JNull then AList.delete (fst kv) ts
        else AList.update (fst kv)
               (merge_patch (case map_of ts (fst kv) of Some t \<Rightarrow> t | None \<Rightarrow> JNull) (snd kv)) ts)
       ps"

subsection \<open>Deep merge of variables\<close>

text \<open>Modelled from the spec: the merge of section 4.1. The later source overrides the
  earlier one; two mappings merge key by key, two sequences merge position by position
  (the longer one's tail is kept), and anything else is replaced by the later value.\<close>

fun deep_merge :: "json \<Rightarrow> json \<Rightarrow> json"
  and merge_keys :: "obj \<Rightarrow> obj \<Rightarrow> obj"
  and merge_elems :: "json list \<Rightarrow> json list \<Rightarrow> json list"
where
  "deep_merge (JObj a) (JObj b) = JObj (merge_keys a b)"
| "deep_merge (JArr xs) (JArr ys) = JArr (merge_elems xs ys)"
| "deep_merge earlier later = later"
| "merge_keys a [] = a"
| "merge_keys a (kv # b) =
     merge_keys
       (AList.update (fst kv)
          (case map_of a (fst kv) of Some x \<Rightarrow> deep_merge x (snd kv) | None \<Rightarrow> snd kv) a)
       b"
| "merge_elems xs [] = xs"
| "merge_elems [] ys = ys"
| "merge_elems (x # xs) (y # ys) = deep_merge x y # merge_elems xs ys"

text \<open>Modelled from the spec: \<open>merge(sources)\<close> of section 4.1 over the ordered sources.\<close>

definition merge_variables :: "obj list \<Rightarrow> obj" where
  \<comment> \<open>\<open>merge(sources)\<close>: the sources from lowest to highest precedence\<close>
  "merge_variables sources = foldl merge_keys [] sources"

subsection \<open>Provider patch merger\<close>

text \<open>Modelled from the spec: step 1 of section 4.3. A fragment is dropped when its
  \<open>environments\<close> list is present and does not contain the target environment.\<close>

definition applies_to :: "string \<Rightarrow> ProviderConfig \<Rightarrow> bool" where
  "applies_to environment p =
     (case map_of (pc_fields p) ''environments'' of
        Some (JArr es) \<Rightarrow> JStr environment \<in> set es
      | _ \<Rightarrow> True)"

text \<open>Modelled from the spec: steps 2 and 3 of section 4.3. The fragments are taken in
  list order; the first fragment of a name opens an entry at the end of the result, and
  every later fragment of that name is merged onto the entry as a JSON Merge Patch. Two
  fragments of one group have the same name, so patching the name is patching the
  other keys.\<close>

definition patch_provider :: "ProviderConfig \<Rightarrow> ProviderConfig \<Rightarrow> ProviderConfig" where
  "patch_provider acc p = acc\<lparr>pc_fields := patch_fields (pc_fields acc) (pc_fields p)\<rparr>"

text \<open>Modelled from the spec: one fragment added to the accumulated result (steps 2 and 3
  of section 4.3): merged onto the entry of its name, or appended as a new entry.\<close>

fun merge_into :: "ProviderConfig list \<Rightarrow> ProviderConfig \<Rightarrow> ProviderConfig list" where
  "merge_into [] p = [p]"
| "merge_into (a # acc) p =
     (if pc_name a = pc_name p then patch_provider a p # acc else a # merge_into acc p)"

text \<open>Modelled from the spec: steps 2 and 3 of section 4.3 over a whole list.\<close>

definition mergeProviders :: "ProviderConfig list \<Rightarrow> ProviderConfig list" where
  "mergeProviders ps = foldl merge_into [] ps"

text \<open>Modelled from the spec: the fixed list of built-in providers of step 4, with the
  names the tests of \<open>pickEnvironment\<close> expect (\<open>exec\<close>, \<open>container\<close>).\<close>

definition fixedProviders :: "ProviderConfig list" where
  "fixedProviders = [\<lparr>pc_name = ''exec'', pc_fields = []\<rparr>,
                     \<lparr>pc_name = ''container'', pc_fields = []\<rparr>]"

subsection \<open>Varfile loader\<close>

text \<open>The varfiles of a project: the parsed content of the file at a path relative to the
  project root, or \<open>None\<close> when there is no such file.\<close>

type_synonym varfiles = "string \<Rightarrow> string \<Rightarrow> obj option"

text \<open>Modelled from the spec: the message of section 4.2, which the tests of
  \<open>pickEnvironment\<close> expect literally.\<close>

definition varfile_not_found :: "string \<Rightarrow> string" where
  "varfile_not_found path = ''Could not find varfile at path '' @ quoted path"

text \<open>Modelled from the spec: \<open>load(path, required)\<close> of section 4.2.\<close>

definition loadVarfile :: "varfiles \<Rightarrow> string \<Rightarrow> string \<Rightarrow> bool \<Rightarrow> error + obj" where
  "loadVarfile files projectRoot path required =
     (case files projectRoot path of
        Some vars \<Rightarrow> Inr vars
      | None \<Rightarrow> if required then Inl (ConfigurationError (varfile_not_found path)) else Inr [])"

subsection \<open>Environment selector\<close>

datatype Namespacing = Optional | Required | Disabled

record EnvironmentConfig =
  env_name :: string
  env_namespacing :: "Namespacing option"
  env_production :: "bool option"
  env_variables :: obj
  env_varfile :: "string option"

record ProjectConfig =
  proj_name :: string
  proj_path :: string
  proj_defaultEnvironment :: string
  proj_environments :: "EnvironmentConfig list"
  proj_providers :: "ProviderConfig list"
  proj_variables :: obj
  proj_varfile :: "string option"

record ResolvedEnvironment =
  re_environmentName :: string
  re_namespace :: "string option"
  re_production :: bool
  re_providers :: "ProviderConfig list"
  re_variables :: obj

text \<open>The default varfile paths (\<open>defaultVarfilePath\<close>, \<open>defaultEnvVarfilePath\<close>) are
  constants of the module; the tests use them by name only, so they are parameters.\<close>

record VarfileDefaults =
  defaultVarfilePath :: string
  defaultEnvVarfilePath :: "string \<Rightarrow> string"

text \<open>Modelled from the spec: splitting a selector at its delimiter (section 4.4).\<close>

fun split_on :: "char \<Rightarrow> string \<Rightarrow> string list" where
  "split_on d [] = [[]]"
| "split_on d (c # cs) =
     (if c = d then [] # split_on d cs
      else (case split_on d cs of
              w # ws \<Rightarrow> (c # w) # ws
            | [] \<Rightarrow> [[c]]))"

text \<open>Modelled from the spec: the pattern a selector's segments must match (section 4.4).\<close>

definition valid_segment :: "string \<Rightarrow> bool" where
  \<comment> \<open>a DNS-label-like name: lowercase alphanumerics and hyphens\<close>
  "valid_segment s \<longleftrightarrow>
     s \<noteq> [] \<and> list_all (\<lambda>c. c \<in> set ''abcdefghijklmnopqrstuvwxyz0123456789-'') s"

text \<open>Modelled from the spec: \<open>parseEnvironment\<close> of section 4.4, with the messages the
  tests of \<open>parseEnvironment\<close> expect.\<close>

definition parseEnvironment :: "string \<Rightarrow> error + (string \<times> string option)" where
  "parseEnvironment env =
     (let parts = split_on CHR ''.'' env
      in if length parts > 2
         then Inl (ConfigurationError (''Invalid environment specified ('' @ env @
                     ''): may only contain a single delimiter''))
         else if \<not> list_all valid_segment parts
         then Inl (ConfigurationError (''Invalid environment specified ('' @ env @
                     ''): must be a valid environment name or <namespace>.<environment>''))
         else (case parts of
                 [environment] \<Rightarrow> Inr (environment, None)
               | namespace # environment # _ \<Rightarrow> Inr (environment, Some namespace)
               | [] \<Rightarrow> Inr (env, None)))"

text \<open>Modelled from the spec: the first two steps of \<open>pickEnvironment\<close> (section 4.4): parse
  the selector, look the environment up, enforce its namespacing policy. The messages of
  the policy errors are those the tests expect; the spec gives no message for the
  \<open>ParameterError\<close>, which carries the environment's name here.\<close>

definition selectEnvironment ::
  "ProjectConfig \<Rightarrow> string \<Rightarrow> error + (EnvironmentConfig \<times> string \<times> string option)" where
  "selectEnvironment config env =
     (case parseEnvironment env of
        Inl e \<Rightarrow> Inl e
      | Inr (environment, namespace) \<Rightarrow>
          (case find (\<lambda>e. env_name e = environment) (proj_environments config) of
             None \<Rightarrow> Inl (ParameterError environment)
           | Some environmentConfig \<Rightarrow>
               if env_namespacing environmentConfig = Some Required \<and> namespace = None
               then Inl (ConfigurationError (''Environment '' @ environment @
                           '' requires a namespace, but none was specified.''))
               else if env_namespacing environmentConfig = Some Disabled \<and> namespace \<noteq> None
               then Inl (ConfigurationError (''Environment '' @ environment @
                           '' does not allow namespacing, but namespace '' @
                           quoted (the namespace) @ '' was specified.''))
               else Inr (environmentConfig, environment, namespace)))"

text \<open>Modelled from the spec: whether a varfile is required (sections 4.2 and 4.4): the path
  was set, and to something else than the default.\<close>

definition varfile_required :: "string option \<Rightarrow> string \<Rightarrow> bool" where
  "varfile_required path defaultPath \<longleftrightarrow> path \<noteq> None \<and> path \<noteq> Some defaultPath"

text \<open>Modelled from the spec: the path a varfile is read from, the default one when none is
  set (section 4.4).\<close>

definition varfile_path :: "string option \<Rightarrow> string \<Rightarrow> string" where
  "varfile_path path defaultPath = (case path of Some p \<Rightarrow> p | None \<Rightarrow> defaultPath)"

text \<open>Modelled from the spec: \<open>pickEnvironment\<close> of section 4.4. The variables are merged
  from the four sources in rising precedence. The provider list is the patch merge of
  section 4.3 over the built-in providers followed by the fragments that apply to the
  environment. Where the spec's step 4 ("without patch-merging into them") and the tests
  differ, the tests decide: the test "should correctly merge provider configurations
  using JSON Merge Patch" declares \<open>{name: "container", newKey: "foo"}\<close> and expects the one
  entry \<open>{name: "container", newKey: "foo"}\<close> second in the list, after \<open>{name: "exec"}\<close>.\<close>

definition pickEnvironment ::
  "VarfileDefaults \<Rightarrow> varfiles \<Rightarrow> ProjectConfig \<Rightarrow> string \<Rightarrow> error + ResolvedEnvironment" where
  "pickEnvironment defaults files config env =
     (case selectEnvironment config env of
        Inl e \<Rightarrow> Inl e
      | Inr (environmentConfig, environment, namespace) \<Rightarrow>
          (case loadVarfile files (proj_path config)
                  (varfile_path (proj_varfile config) (defaultVarfilePath defaults))
                  (varfile_required (proj_varfile config) (defaultVarfilePath defaults)) of
             Inl e \<Rightarrow> Inl e
           | Inr projectVarfileVars \<Rightarrow>
               (case loadVarfile files (proj_path config)
                       (varfile_path (env_varfile environmentConfig)
                          (defaultEnvVarfilePath defaults environment))
                       (varfile_required (env_varfile environmentConfig)
                          (defaultEnvVarfilePath defaults environment)) of
                  Inl e \<Rightarrow> Inl e
                | Inr envVarfileVars \<Rightarrow>
                    Inr \<lparr>re_environmentName = environment,
                         re_namespace = namespace,
                         re_production = (case env_production environmentConfig of
                                            Some b \<Rightarrow> b | None \<Rightarrow> False),
                         re_providers =
                           mergeProviders
                             (fixedProviders @
                              filter (applies_to environment) (proj_providers config)),
                         re_variables =
                           merge_variables
                             [proj_variables config, projectVarfileVars,
                              env_variables environmentConfig, envVarfileVars]\<rparr>)))"

section \<open>Example inputs\<close>

definition demo_garden :: "unit Garden" where
  "demo_garden = \<lparr>g_resolvedProviders = Map.empty, g_projectRoot = ''/project'',
     g_projectName = ''demo'', g_environmentName = ''local'', g_namespace = None,
     g_variables = [], g_secrets = [],
     g_rawProviderConfigs = [\<lparr>pc_name = ''kube'', pc_fields = []\<rparr>],
     g_plugins = [\<lparr>gp_name = ''kube'', gp_base = None, gp_dependencies = [''registry''],
                   gp_configSchema = None\<rparr>],
     g_calls = []\<rparr>"

definition not_ready :: EnvironmentStatus where
  "not_ready = \<lparr>es_ready = False, es_outputs = []\<rparr>"

definition demo_provider :: Provider where
  "demo_provider =
     Provider ''kube'' [] [] \<lparr>pc_name = ''kube'', pc_fields = []\<rparr> defaultEnvironmentStatus"

definition router_prepares :: ActionRouter where
  \<comment> \<open>the plugin reports not ready, and its prepare handler makes it ready\<close>
  "router_prepares =
     \<lparr>ar_configureProvider = (\<lambda>p. Inr \<lparr>cr_config = cp_config p, cr_moduleConfigs = None\<rparr>),
      ar_getEnvironmentStatus = [''kube'' \<mapsto> (\<lambda>_. Inr not_ready)],
      ar_prepareEnvironment = [''kube'' \<mapsto> (\<lambda>_ _ _. Inr defaultEnvironmentStatus)]\<rparr>"

definition router_stuck :: ActionRouter where
  \<comment> \<open>the plugin reports not ready and has no prepare handler\<close>
  "router_stuck =
     \<lparr>ar_configureProvider = (\<lambda>p. Inr \<lparr>cr_config = cp_config p, cr_moduleConfigs = None\<rparr>),
      ar_getEnvironmentStatus = [''kube'' \<mapsto> (\<lambda>_. Inr not_ready)],
      ar_prepareEnvironment = Map.empty\<rparr>"



definition plain_imports :: "unit Imports" where
  \<comment> \<open>collaborators that change nothing: no templates, no schema, no plugin bases\<close>
  "plain_imports =
     \<lparr>resolveTemplateStrings = (\<lambda>c _. Inr c),
      validateWithPath = (\<lambda>c _ _ _. Inr c),
      joi_object = (),
      unknown = (\<lambda>s. s),
      getPluginBases = (\<lambda>_ _. []),
      getPluginBaseNames = (\<lambda>_ _. []),
      getProviderTemplateReferences = (\<lambda>_. [])\<rparr>"

definition demo_task :: "unit ResolveProviderTask" where
  "demo_task =
     \<lparr>t_config = \<lparr>pc_name = ''kube'', pc_fields = []\<rparr>,
      t_plugin = Some \<lparr>gp_name = ''kube'', gp_base = None, gp_dependencies = [''registry''],
                       gp_configSchema = None\<rparr>,
      t_forceInit = False\<rparr>"

subsection \<open>A small validation engine for the examples\<close>

text \<open>A schema of the stand-in engine lists keys with a default value, keys whose value
  must be a number when present, and whether other keys are accepted. A successful
  validation returns the config with the missing defaults filled in, as the real engine
  does.\<close>

record Schema =
  sc_defaults :: obj
  sc_numbers :: "string list"
  sc_unknown :: bool

definition fill_defaults :: "obj \<Rightarrow> obj \<Rightarrow> obj" where
  "fill_defaults ds fs =
     foldl (\<lambda>acc kv. if map_of acc (fst kv) = None then acc @ [kv] else acc) fs ds"

fun not_a_number :: "json option \<Rightarrow> bool" where
  "not_a_number None = False"
| "not_a_number (Some (JNum _)) = False"
| "not_a_number (Some _) = True"

definition check_schema :: "ProviderConfig \<Rightarrow> Schema \<Rightarrow> string \<Rightarrow> string \<Rightarrow> error + ProviderConfig" where
  "check_schema c s path configType =
     (if \<not> sc_unknown s \<and>
         list_ex (\<lambda>k. k \<notin> set (map fst (sc_defaults s) @ sc_numbers s)) (map fst (pc_fields c))
      then Inl (ConfigurationError (''Error validating '' @ configType @ '': key is not allowed''))
      else if list_ex (\<lambda>k. not_a_number (map_of (pc_fields c) k)) (sc_numbers s)
      then Inl (ConfigurationError (''Error validating '' @ configType @ '': must be a number''))
      else Inr (c\<lparr>pc_fields := fill_defaults (sc_defaults s) (pc_fields c)\<rparr>))"

fun bases_upto :: "nat \<Rightarrow> 'sch GardenPlugin \<Rightarrow> (string \<rightharpoonup> 'sch GardenPlugin) \<Rightarrow> 'sch GardenPlugin list" where
  "bases_upto 0 p m = []"
| "bases_upto (Suc n) p m =
     (case gp_base p of
        None \<Rightarrow> []
      | Some b \<Rightarrow> (case m b of None \<Rightarrow> [] | Some bp \<Rightarrow> bp # bases_upto n bp m))"

definition engine_imports :: "Schema Imports" where
  "engine_imports =
     \<lparr>resolveTemplateStrings = (\<lambda>c _. Inr c),
      validateWithPath = check_schema,
      joi_object = \<lparr>sc_defaults = [], sc_numbers = [], sc_unknown = True\<rparr>,
      unknown = (\<lambda>s. s\<lparr>sc_unknown := True\<rparr>),
      getPluginBases = bases_upto 8,
      getPluginBaseNames = (\<lambda>n m. case m n of None \<Rightarrow> [] | Some p \<Rightarrow> map gp_name (bases_upto 8 p m)),
      getProviderTemplateReferences = (\<lambda>_. [])\<rparr>"

definition parent_plugin :: "Schema GardenPlugin" where
  "parent_plugin = \<lparr>gp_name = ''parent'', gp_base = None, gp_dependencies = [],
     gp_configSchema = Some \<lparr>sc_defaults = [], sc_numbers = [''replicas''], sc_unknown = False\<rparr>\<rparr>"

definition mid_plugin :: "Schema GardenPlugin" where
  "mid_plugin = \<lparr>gp_name = ''mid'', gp_base = Some ''parent'', gp_dependencies = [],
     gp_configSchema = None\<rparr>"

definition child_plugin :: "Schema GardenPlugin" where
  "child_plugin = \<lparr>gp_name = ''child'', gp_base = Some ''mid'', gp_dependencies = [],
     gp_configSchema = Some \<lparr>sc_defaults = [(''mode'', JStr ''fast'')],
                             sc_numbers = [''replicas''], sc_unknown = False\<rparr>\<rparr>"

definition engine_garden :: "Schema Garden" where
  "engine_garden = \<lparr>g_resolvedProviders = Map.empty, g_projectRoot = ''/project'',
     g_projectName = ''demo'', g_environmentName = ''local'', g_namespace = None,
     g_variables = [], g_secrets = [],
     g_rawProviderConfigs = [\<lparr>pc_name = ''child'', pc_fields = [(''replicas'', JNum 2)]\<rparr>],
     g_plugins = [parent_plugin, mid_plugin, child_plugin],
     g_calls = []\<rparr>"

definition child_task :: "Schema ResolveProviderTask" where
  "child_task = \<lparr>t_config = \<lparr>pc_name = ''child'', pc_fields = [(''replicas'', JNum 2)]\<rparr>,
     t_plugin = Some child_plugin, t_forceInit = False\<rparr>"

definition router_keeps :: ActionRouter where
  \<comment> \<open>\<open>configureProvider\<close> returns the config it was given; no status or prepare handler\<close>
  "router_keeps =
     \<lparr>ar_configureProvider = (\<lambda>p. Inr \<lparr>cr_config = cp_config p, cr_moduleConfigs = None\<rparr>),
      ar_getEnvironmentStatus = Map.empty,
      ar_prepareEnvironment = Map.empty\<rparr>"

definition router_drops_mode :: ActionRouter where
  \<comment> \<open>\<open>configureProvider\<close> returns the config without its \<open>mode\<close> key\<close>
  "router_drops_mode =
     \<lparr>ar_configureProvider = (\<lambda>p. Inr \<lparr>cr_config = (cp_config p)
          \<lparr>pc_fields := AList.delete ''mode'' (pc_fields (cp_config p))\<rparr>, cr_moduleConfigs = None\<rparr>),
      ar_getEnvironmentStatus = Map.empty,
      ar_prepareEnvironment = Map.empty\<rparr>"

subsection \<open>Project configs of the tests of \<open>pickEnvironment\<close>\<close>

definition test_defaults :: VarfileDefaults where
  "test_defaults = \<lparr>defaultVarfilePath = ''garden.env'',
                     defaultEnvVarfilePath = (\<lambda>environment. ''garden.'' @ environment @ ''.env'')\<rparr>"

definition no_files :: varfiles where
  "no_files = (\<lambda>_ _. None)"

definition test_project :: ProjectConfig where
  \<comment> \<open>the config most tests start from: one environment \<open>default\<close>, nothing else\<close>
  "test_project =
     \<lparr>proj_name = ''my-project'', proj_path = ''/tmp/foo'', proj_defaultEnvironment = ''default'',
      proj_environments = [\<lparr>env_name = ''default'', env_namespacing = None,
                             env_production = None, env_variables = [], env_varfile = None\<rparr>],
      proj_providers = [], proj_variables = [], proj_varfile = None\<rparr>"

definition patch_test_providers :: "ProviderConfig list" where
  \<comment> \<open>"should correctly merge provider configurations using JSON Merge Patch"\<close>
  "patch_test_providers =
     [\<lparr>pc_name = ''container'', pc_fields = [(''newKey'', JStr ''foo'')]\<rparr>,
      \<lparr>pc_name = ''my-provider'', pc_fields = [(''a'', JStr ''a'')]\<rparr>,
      \<lparr>pc_name = ''my-provider'', pc_fields = [(''b'', JStr ''b'')]\<rparr>,
      \<lparr>pc_name = ''my-provider'', pc_fields = [(''a'', JStr ''c'')]\<rparr>]"

definition null_test_providers :: "ProviderConfig list" where
  \<comment> \<open>"should remove null values in provider configs (as per the JSON Merge Patch spec)"\<close>
  "null_test_providers =
     [\<lparr>pc_name = ''container'', pc_fields = [(''newKey'', JStr ''foo'')]\<rparr>,
      \<lparr>pc_name = ''my-provider'', pc_fields = [(''a'', JStr ''a'')]\<rparr>,
      \<lparr>pc_name = ''my-provider'', pc_fields = [(''b'', JStr ''b'')]\<rparr>,
      \<lparr>pc_name = ''my-provider'', pc_fields = [(''a'', JNull)]\<rparr>]"

definition merge_test_project :: ProjectConfig where
  \<comment> \<open>"should correctly merge project and environment variables"\<close>
  "merge_test_project =
     test_project
       \<lparr>proj_environments :=
          [\<lparr>env_name = ''default'', env_namespacing = None, env_production = None,
             env_variables =
               [(''b'', JStr ''env value B''), (''c'', JStr ''env value C''),
                (''array'', JArr [JObj [(''envArrayKey'', JStr ''env array value'')]]),
                (''nested'', JObj [(''nestedB'', JStr ''nested env value B''),
                                   (''nestedC'', JStr ''nested env value C'')])],
             env_varfile = None\<rparr>],
        proj_variables :=
          [(''a'', JStr ''project value A''), (''b'', JStr ''project value B''),
           (''array'', JArr [JObj [(''projectArrayKey'', JStr ''project array value'')]]),
           (''nested'', JObj [(''nestedA'', JStr ''nested project value A''),
                              (''nestedB'', JStr ''nested project value B'')])]\<rparr>"

definition precedence_test_project :: ProjectConfig where
  \<comment> \<open>"should correctly merge all variable sources in precedence order"\<close>
  "precedence_test_project =
     test_project
       \<lparr>proj_environments :=
          [\<lparr>env_name = ''default'', env_namespacing = None, env_production = None,
             env_variables = [(''c'', JStr ''C''), (''d'', JStr ''d'')],
             env_varfile = None\<rparr>],
        proj_variables := [(''a'', JStr ''a''), (''b'', JStr ''b'')]\<rparr>"

definition precedence_test_files :: varfiles where
  "precedence_test_files =
     (\<lambda>root path.
        if path = ''garden.default.env'' then Some [(''d'', JStr ''D''), (''e'', JStr ''e'')]
        else if path = ''garden.env'' then Some [(''b'', JStr ''B''), (''c'', JStr ''c'')]
        else None)"

section \<open>Properties of the provider resolution task\<close>

subsection \<open>Steps only append to the record of calls\<close>


lemma appends_calls_refl: "appends_calls g g"
  unfolding appends_calls_def by (rule exI [of _ "[]"]) simp

lemma appends_calls_trans:
  assumes "appends_calls g g1" and "appends_calls g1 g2"
  shows "appends_calls g g2"
proof -
  from assms obtain cs ds where "g1 = g\<lparr>g_calls := g_calls g @ cs\<rparr>"
    and "g2 = g1\<lparr>g_calls := g_calls g1 @ ds\<rparr>"
    unfolding appends_calls_def by blast
  then have "g2 = g\<lparr>g_calls := g_calls g @ (cs @ ds)\<rparr>" by simp
  then show ?thesis unfolding appends_calls_def by blast
qed

lemma appends_calls_record_call: "appends_calls g (record_call e g)"
  unfolding appends_calls_def record_call_def by blast

lemma appends_calls_fields:
  assumes "appends_calls g g'"
  shows "g_resolvedProviders g' = g_resolvedProviders g"
    and "g_projectRoot g' = g_projectRoot g"
    and "g_plugins g' = g_plugins g"
    and "g_projectName g' = g_projectName g"
    and "g_environmentName g' = g_environmentName g"
    and "g_namespace g' = g_namespace g"
  using assms unfolding appends_calls_def by auto

lemma validateConfig_appends: "appends_calls g (snd (validateConfig hs plugin config g))"
  by (simp add: validateConfig_def Let_def appends_calls_record_call)

lemma validateBases_appends: "appends_calls g (snd (validateBases hs bases c g))"
proof (induction bases arbitrary: c g)
  case Nil
  show ?case by (simp add: appends_calls_refl)
next
  case (Cons b bs)
  show ?case
  proof (cases "gp_configSchema b")
    case None
    then show ?thesis using Cons.IH by simp
  next
    case (Some s)
    let ?g1 = "record_call (EvValidate (unknown hs s) (omit_path c) (base_config_type (gp_name b))) g"
    have g1: "appends_calls g ?g1" by (rule appends_calls_record_call)
    show ?thesis
    proof (cases "validateWithPath hs (omit_path c) (unknown hs s) (g_projectRoot g) (base_config_type (gp_name b))")
      case (Inl e)
      with Some g1 show ?thesis by (simp add: Let_def)
    next
      case (Inr v)
      have "appends_calls g (snd (validateBases hs bs v ?g1))"
        using g1 Cons.IH [where c=v and g="?g1"] by (rule appends_calls_trans)
      with Some Inr show ?thesis by (simp add: Let_def)
    qed
  qed
qed

lemma ensurePrepared_appends: "appends_calls g (snd (ensurePrepared actions force tmp g))"
proof -
  have two: "\<And>e1 e2. appends_calls g (record_call e2 (record_call e1 g))"
    by (meson appends_calls_record_call appends_calls_trans)
  show ?thesis
    by (simp add: ensurePrepared_def Let_def appends_calls_record_call two split: sum.splits)
qed

lemma afterConfigure_appends:
  "appends_calls g (snd (afterConfigure hs actions task plugin deps out g))"
proof -
  obtain r1 g1 where v: "validateConfig hs plugin (cr_config out) g = (r1, g1)" by force
  have a1: "appends_calls g g1" using validateConfig_appends [of g hs plugin "cr_config out"] v by simp
  show ?thesis
  proof (cases r1)
    case (Inl e)
    with v a1 show ?thesis by (simp add: afterConfigure_def)
  next
    case (Inr validated)
    let ?rc = "set_path (g_projectRoot g1) validated"
    let ?bases = "getPluginBases hs plugin (keyBy (g_plugins g1))"
    obtain r2 g2 where b: "validateBases hs ?bases ?rc g1 = (r2, g2)" by force
    have a2: "appends_calls g g2"
      using a1 validateBases_appends [of g1 hs ?bases ?rc] b by (auto intro: appends_calls_trans)
    show ?thesis
    proof (cases r2)
      case (Inl e)
      with v Inr b a2 show ?thesis by (simp add: afterConfigure_def Let_def)
    next
      case (Inr rc')
      note r2 = this
      let ?ms = "case cr_moduleConfigs out of Some ms \<Rightarrow> ms | None \<Rightarrow> []"
      let ?tmp = "providerFromConfig rc' deps ?ms defaultEnvironmentStatus"
      obtain r3 g3 where e: "ensurePrepared actions (t_forceInit task) ?tmp g2 = (r3, g3)" by force
      have a3: "appends_calls g g3"
        using a2 ensurePrepared_appends [of g2 actions "t_forceInit task" ?tmp] e
        by (auto intro: appends_calls_trans)
      from v \<open>r1 = Inr validated\<close> b r2 e a3 show ?thesis
        by (cases r3) (simp_all add: afterConfigure_def Let_def)
    qed
  qed
qed

lemma process_appends: "appends_calls g (snd (process hs actions task deps g))"
proof (cases "g_resolvedProviders g (pc_name (t_config task))")
  case (Some p)
  then show ?thesis by (simp add: process_def appends_calls_refl)
next
  case None
  let ?g1 = "record_call (EvResolveTemplateStrings (t_config task)) g"
  let ?ctx = "\<lparr>ctx_projectName = g_projectName g, ctx_environmentName = g_environmentName g,
              ctx_providers = deps, ctx_variables = g_variables g, ctx_secrets = g_secrets g\<rparr>"
  have a1: "appends_calls g ?g1" by (rule appends_calls_record_call)
  show ?thesis
  proof (cases "resolveTemplateStrings hs (t_config task) ?ctx")
    case (Inl e)
    with None a1 show ?thesis by (simp add: process_def Let_def)
  next
    case (Inr rc)
    note rc = this
    show ?thesis
    proof (cases "t_plugin task")
      case None': None
      with None rc a1 show ?thesis by (simp add: process_def Let_def)
    next
      case (Some plugin)
      obtain r2 g2 where v: "validateConfig hs plugin rc ?g1 = (r2, g2)" by force
      have a2: "appends_calls g g2"
        using a1 validateConfig_appends [of ?g1 hs plugin rc] v by (auto intro: appends_calls_trans)
      show ?thesis
      proof (cases r2)
        case (Inl e)
        with None rc Some v a2 show ?thesis by (simp add: process_def Let_def)
      next
        case (Inr validated)
        let ?params = "\<lparr>cp_environmentName = g_environmentName g2, cp_namespace = g_namespace g2,
                         cp_pluginName = pc_name rc,
                         cp_config = set_path (g_projectRoot g2) validated,
                         cp_projectName = g_projectName g2, cp_projectRoot = g_projectRoot g2,
                         cp_dependencies = deps\<rparr>"
        let ?g3 = "record_call (EvConfigureProvider ?params) g2"
        have a3: "appends_calls g ?g3"
          using a2 appends_calls_record_call by (rule appends_calls_trans)
        show ?thesis
        proof (cases "ar_configureProvider actions ?params")
          case Inl': (Inl e)
          with None rc Some v Inr a3 show ?thesis by (simp add: process_def Let_def)
        next
          case Inr': (Inr out)
          have "appends_calls g (snd (afterConfigure hs actions task plugin deps out ?g3))"
            using a3 afterConfigure_appends by (rule appends_calls_trans)
          with None rc Some v Inr Inr' show ?thesis by (simp add: process_def Let_def)
        qed
      qed
    qed
  qed
qed

subsection \<open>The readiness protocol\<close>



text \<open>When the status handler itself raises, the error is passed on and nothing is prepared.\<close>

lemma ensurePrepared_status_raises:
  assumes "getActionHandler (ar_getEnvironmentStatus actions) (p_name tmp)
             (\<lambda>_. Inr defaultEnvironmentStatus) tmp = Inl e"
  shows "ensurePrepared actions forceInit tmp g =
           (Inl e, record_call (EvGetEnvironmentStatus (p_name tmp)) g)"
  using assms by (simp add: ensurePrepared_def Let_def)

subsection \<open>Missing explicit dependencies\<close>

lemma find_first_missing:
  assumes "d \<in> set ds" and "P d"
  shows "\<exists>m. find P ds = Some m \<and> m \<in> set ds \<and> P m"
  using assms by (induction ds) auto

lemma matchDependencies_empty_iff:
  "matchDependencies hs g plugins depName = [] \<longleftrightarrow>
     (\<forall>c \<in> set (g_rawProviderConfigs g).
        pc_name c \<noteq> depName \<and> depName \<notin> set (getPluginBaseNames hs (pc_name c) plugins))"
  by (auto simp: matchDependencies_def filter_empty_conv)

lemma missing_dependency_message_names_both:
  "\<exists>pre mid post. missing_dependency_message providerName depName =
     pre @ quoted providerName @ mid @ quoted depName @ post"
  unfolding missing_dependency_message_def
  by (rule exI [of _ "''Provider ''"], rule exI [of _ "'' depends on provider ''"]) simp

text \<open>
  Claim C4. When the task's plugin declares an explicit dependency that no configured
  provider matches (no configured provider has that name, and none has a plugin whose
  base names contain it), \<open>resolveDependencies\<close> fails with a \<open>ConfigurationError\<close>.
  Its message names, between quotes, the current provider and an explicit dependency
  that matches nothing: the first such one in the plugin's list, so the given one when
  it is the only or the first one missing.
\<close>

theorem resolveDependencies_missing_explicit_dependency:
  assumes plugin: "t_plugin task = Some plugin"
      and dep: "depName \<in> set (gp_dependencies plugin)"
      and unmatched: "\<forall>c \<in> set (g_rawProviderConfigs g).
             pc_name c \<noteq> depName \<and>
             depName \<notin> set (getPluginBaseNames hs (pc_name c) (keyBy (g_plugins g)))"
  shows "\<exists>missing.
           find (\<lambda>d. matchDependencies hs g (keyBy (g_plugins g)) d = []) (gp_dependencies plugin)
             = Some missing \<and>
           missing \<in> set (gp_dependencies plugin) \<and>
           matchDependencies hs g (keyBy (g_plugins g)) missing = [] \<and>
           resolveDependencies hs task g =
             Inl (ConfigurationError
                    (missing_dependency_message (pc_name (t_config task)) missing)) \<and>
           (\<exists>pre mid post. missing_dependency_message (pc_name (t_config task)) missing =
              pre @ quoted (pc_name (t_config task)) @ mid @ quoted missing @ post)"
proof -
  let ?P = "\<lambda>d. matchDependencies hs g (keyBy (g_plugins g)) d = []"
  from unmatched have "?P depName" by (simp add: matchDependencies_empty_iff)
  with dep obtain m where m: "find ?P (gp_dependencies plugin) = Some m"
      "m \<in> set (gp_dependencies plugin)" "?P m"
    using find_first_missing [of depName "gp_dependencies plugin" ?P] by blast
  have "resolveDependencies hs task g =
          Inl (ConfigurationError (missing_dependency_message (pc_name (t_config task)) m))"
    using plugin m(1) by (simp add: resolveDependencies_def Let_def)
  with m missing_dependency_message_names_both [of "pc_name (t_config task)" m]
  show ?thesis by blast
qed

theorem resolveDependencies_missing_explicit_dependency_witness:
  "t_plugin demo_task = Some \<lparr>gp_name = ''kube'', gp_base = None,
       gp_dependencies = [''registry''], gp_configSchema = None\<rparr>
   \<and> resolveDependencies plain_imports demo_task demo_garden =
       Inl (ConfigurationError
         (''Provider '' @ quoted ''kube'' @ '' depends on provider '' @ quoted ''registry'' @
          '', which is not configured. You need to add '' @ quoted ''registry'' @
          '' to your project configuration for the '' @ quoted ''kube'' @ '' to work.''))"
proof -
  have p: "t_plugin demo_task = Some \<lparr>gp_name = ''kube'', gp_base = None,
       gp_dependencies = [''registry''], gp_configSchema = None\<rparr>"
    by (simp add: demo_task_def)
  have d: "''registry'' \<in> set (gp_dependencies \<lparr>gp_name = ''kube'', gp_base = None,
       gp_dependencies = [''registry''], gp_configSchema = (None :: unit option)\<rparr>)"
    by simp
  have u: "\<forall>c \<in> set (g_rawProviderConfigs demo_garden).
             pc_name c \<noteq> ''registry'' \<and>
             ''registry'' \<notin> set (getPluginBaseNames plain_imports (pc_name c)
                                   (keyBy (g_plugins demo_garden)))"
    by (simp add: demo_garden_def plain_imports_def)
  show ?thesis
    using resolveDependencies_missing_explicit_dependency [OF p d u] p
    by (auto simp: missing_dependency_message_def demo_task_def find_Some_iff)
qed

subsection \<open>The memo of resolved providers\<close>

text \<open>
  Claim C1, as the code has it. If \<open>garden["resolvedProviders"]\<close> holds a Provider for
  the task's provider name, \<open>process\<close> returns that Provider and leaves the
  \<open>Garden\<close> instance as it was: nothing is recorded, so neither \<open>configureProvider\<close>
  nor a status or prepare handler was invoked. In every case \<open>process\<close> leaves the
  dictionary of resolved providers unchanged: it reads the memo and never writes it.
\<close>

theorem process_memo:
  "(\<forall>p. g_resolvedProviders g (pc_name (t_config task)) = Some p \<longrightarrow>
        process hs actions task deps g = (Inr p, g))
   \<and> g_resolvedProviders (snd (process hs actions task deps g)) = g_resolvedProviders g"
  using process_appends [of g hs actions task deps]
  by (simp add: appends_calls_fields(1) process_def)

theorem process_memo_witness:
  "g_resolvedProviders (demo_garden\<lparr>g_resolvedProviders := [''kube'' \<mapsto> demo_provider]\<rparr>)
     (pc_name (t_config demo_task)) = Some demo_provider
   \<and> process plain_imports router_stuck demo_task []
       (demo_garden\<lparr>g_resolvedProviders := [''kube'' \<mapsto> demo_provider]\<rparr>) =
     (Inr demo_provider, demo_garden\<lparr>g_resolvedProviders := [''kube'' \<mapsto> demo_provider]\<rparr>)"
  using process_memo [of "demo_garden\<lparr>g_resolvedProviders := [''kube'' \<mapsto> demo_provider]\<rparr>"
                        demo_task plain_imports router_stuck "[]"]
  by (simp add: demo_task_def)

text \<open>
  The claim as stated fails: a Provider that \<open>process\<close> produces is handed back while
  the memo still has no entry for its name, and a second run on the resulting state
  invokes \<open>configureProvider\<close> and the handlers again.
\<close>

theorem process_memo_counterexample:
  "fst (process plain_imports router_prepares demo_task [] demo_garden) =
     Inr (Provider ''kube'' [] [] \<lparr>pc_name = ''kube'', pc_fields = [(''path'', JStr ''/project'')]\<rparr>
            defaultEnvironmentStatus)
   \<and> g_resolvedProviders (snd (process plain_imports router_prepares demo_task [] demo_garden))
       ''kube'' = None
   \<and> count_configure_calls
       (g_calls (snd (process plain_imports router_prepares demo_task []
          (snd (process plain_imports router_prepares demo_task [] demo_garden))))) = 2"
  by (simp add: process_def afterConfigure_def validateConfig_def ensurePrepared_def
        getActionHandler_def providerFromConfig_def record_call_def set_path_def omit_path_def
        plain_imports_def router_prepares_def demo_task_def demo_garden_def not_ready_def
        defaultEnvironmentStatus_def keyBy_def count_configure_calls_def Let_def)

subsection \<open>Validation of the configured provider\<close>

lemma validateBases_chain:
  assumes "validateBases hs bases c g = (Inr c', g')"
  shows "\<exists>cs. length cs = Suc (length (filter (\<lambda>b. gp_configSchema b \<noteq> None) bases)) \<and>
           hd cs = c \<and> last cs = c' \<and>
           (\<forall>i < length (filter (\<lambda>b. gp_configSchema b \<noteq> None) bases).
              validateWithPath hs (omit_path (cs ! i))
                (unknown hs (the (gp_configSchema (filter (\<lambda>b. gp_configSchema b \<noteq> None) bases ! i))))
                (g_projectRoot g)
                (base_config_type (gp_name (filter (\<lambda>b. gp_configSchema b \<noteq> None) bases ! i)))
              = Inr (cs ! Suc i)) \<and>
           g_calls g' = g_calls g @
             map (base_validation hs) (zip (filter (\<lambda>b. gp_configSchema b \<noteq> None) bases) cs)"
  using assms
proof (induction bases arbitrary: c g)
  case Nil
  then show ?case by (intro exI [of _ "[c]"]) simp
next
  case (Cons b bs)
  let ?F = "filter (\<lambda>b. gp_configSchema b \<noteq> None)"
  show ?case
  proof (cases "gp_configSchema b")
    case None
    with Cons.prems have "validateBases hs bs c g = (Inr c', g')" by simp
    from Cons.IH [OF this] None show ?thesis by simp
  next
    case (Some s)
    let ?ct = "base_config_type (gp_name b)"
    let ?g1 = "record_call (EvValidate (unknown hs s) (omit_path c) ?ct) g"
    from Cons.prems Some obtain v where
      v: "validateWithPath hs (omit_path c) (unknown hs s) (g_projectRoot g) ?ct = Inr v"
      and rest: "validateBases hs bs v ?g1 = (Inr c', g')"
      by (auto simp: Let_def split: sum.splits)
    have root: "g_projectRoot ?g1 = g_projectRoot g" by (simp add: record_call_def)
    from Cons.IH [OF rest] obtain cs where cs:
      "length cs = Suc (length (?F bs))" "hd cs = v" "last cs = c'"
      "\<forall>i < length (?F bs).
          validateWithPath hs (omit_path (cs ! i)) (unknown hs (the (gp_configSchema (?F bs ! i))))
            (g_projectRoot g) (base_config_type (gp_name (?F bs ! i))) = Inr (cs ! Suc i)"
      "g_calls g' = g_calls ?g1 @ map (base_validation hs) (zip (?F bs) cs)"
      unfolding root by blast
    from cs(1) have ne: "cs \<noteq> []" by auto
    then have hd0: "cs ! 0 = v" using cs(2) by (simp add: hd_conv_nth)
    have F: "?F (b # bs) = b # ?F bs" using Some by simp
    have step: "\<forall>i < length (?F (b # bs)).
          validateWithPath hs (omit_path ((c # cs) ! i))
            (unknown hs (the (gp_configSchema (?F (b # bs) ! i))))
            (g_projectRoot g) (base_config_type (gp_name (?F (b # bs) ! i))) = Inr ((c # cs) ! Suc i)"
    proof (intro allI impI)
      fix i assume i: "i < length (?F (b # bs))"
      show "validateWithPath hs (omit_path ((c # cs) ! i))
            (unknown hs (the (gp_configSchema (?F (b # bs) ! i))))
            (g_projectRoot g) (base_config_type (gp_name (?F (b # bs) ! i))) = Inr ((c # cs) ! Suc i)"
      proof (cases i)
        case 0
        then show ?thesis using v Some hd0 unfolding F by simp
      next
        case (Suc j)
        with i have "j < length (?F bs)" unfolding F by simp
        with cs(4) Suc show ?thesis unfolding F by simp
      qed
    qed
    have calls: "g_calls g' = g_calls g @ map (base_validation hs) (zip (?F (b # bs)) (c # cs))"
      unfolding F using cs(5) Some by (simp add: record_call_def base_validation_def)
    have "length (c # cs) = Suc (length (?F (b # bs)))" unfolding F using cs(1) by simp
    moreover have "hd (c # cs) = c" by simp
    moreover have "last (c # cs) = c'" using ne cs(3) by simp
    ultimately show ?thesis using step calls by blast
  qed
qed

lemma ensurePrepared_calls:
  "\<exists>rest. g_calls (snd (ensurePrepared actions force tmp g)) = g_calls g @ rest \<and>
          list_all (\<lambda>e. \<not> is_validate_call e \<and> \<not> is_configure_call e) rest"
  by (auto simp: ensurePrepared_def Let_def record_call_def split: sum.splits)


lemma validateConfig_eq:
  "validateConfig hs plugin c g =
     (validateWithPath hs (omit_path c) (own_schema hs plugin) (g_projectRoot g)
        ''provider configuration'',
      record_call (EvValidate (own_schema hs plugin) (omit_path c) ''provider configuration'') g)"
  by (simp add: validateConfig_def own_schema_def Let_def)

text \<open>Whatever happens later, the first thing \<open>process\<close> does with the config that
  \<open>configureProvider\<close> returned is to validate it against the plugin's own schema.\<close>

lemma afterConfigure_first_call:
  "\<exists>rest. g_calls (snd (afterConfigure hs actions task plugin deps out g)) =
      g_calls g @
      EvValidate (own_schema hs plugin) (omit_path (cr_config out)) ''provider configuration'' #
      rest"
proof -
  let ?e = "EvValidate (own_schema hs plugin) (omit_path (cr_config out)) ''provider configuration''"
  let ?g1 = "record_call ?e g"
  have "appends_calls ?g1 (snd (afterConfigure hs actions task plugin deps out g))"
  proof (cases "validateWithPath hs (omit_path (cr_config out)) (own_schema hs plugin)
                  (g_projectRoot g) ''provider configuration''")
    case (Inl e)
    then show ?thesis
      by (simp add: afterConfigure_def validateConfig_eq appends_calls_refl)
  next
    case (Inr v)
    let ?rc = "set_path (g_projectRoot ?g1) v"
    let ?bases = "getPluginBases hs plugin (keyBy (g_plugins ?g1))"
    let ?ms = "case cr_moduleConfigs out of Some ms \<Rightarrow> ms | None \<Rightarrow> []"
    obtain r2 g2 where b: "validateBases hs ?bases ?rc ?g1 = (r2, g2)" by force
    have a2: "appends_calls ?g1 g2"
      using validateBases_appends [of ?g1 hs ?bases ?rc] b by simp
    show ?thesis
    proof (cases r2)
      case Inl': (Inl e)
      with Inr b a2 show ?thesis by (simp add: afterConfigure_def validateConfig_eq Let_def)
    next
      case Inr': (Inr rc')
      let ?tmp = "providerFromConfig rc' deps ?ms defaultEnvironmentStatus"
      obtain r3 g3 where e: "ensurePrepared actions (t_forceInit task) ?tmp g2 = (r3, g3)"
        by force
      have "appends_calls g2 g3"
        using ensurePrepared_appends [of g2 actions "t_forceInit task" ?tmp] e by simp
      with a2 have "appends_calls ?g1 g3" by (rule appends_calls_trans)
      with Inr b Inr' e show ?thesis
        by (cases r3) (simp_all add: afterConfigure_def validateConfig_eq Let_def)
    qed
  qed
  then obtain cs where "snd (afterConfigure hs actions task plugin deps out g) =
      ?g1\<lparr>g_calls := g_calls ?g1 @ cs\<rparr>"
    unfolding appends_calls_def by blast
  then have "g_calls (snd (afterConfigure hs actions task plugin deps out g)) =
      g_calls g @ ?e # cs"
    by (simp add: record_call_def)
  then show ?thesis by blast
qed

lemma afterConfigure_success:
  assumes run: "afterConfigure hs actions task plugin deps out g = (Inr provider, g')"
  shows "\<exists>v cs rest.
      validateWithPath hs (omit_path (cr_config out)) (own_schema hs plugin) (g_projectRoot g)
        ''provider configuration'' = Inr v \<and>
      length cs = Suc (length (bases_with_schema hs plugin g)) \<and>
      hd cs = set_path (g_projectRoot g) v \<and> last cs = p_config provider \<and>
      (\<forall>i < length (bases_with_schema hs plugin g).
         validateWithPath hs (omit_path (cs ! i))
           (unknown hs (the (gp_configSchema (bases_with_schema hs plugin g ! i))))
           (g_projectRoot g)
           (base_config_type (gp_name (bases_with_schema hs plugin g ! i))) = Inr (cs ! Suc i)) \<and>
      g_calls g' = g_calls g @
        EvValidate (own_schema hs plugin) (omit_path (cr_config out)) ''provider configuration'' #
        map (base_validation hs) (zip (bases_with_schema hs plugin g) cs) @ rest \<and>
      list_all (\<lambda>e. \<not> is_validate_call e \<and> \<not> is_configure_call e) rest"
proof -
  let ?own = "own_schema hs plugin"
  let ?e1 = "EvValidate ?own (omit_path (cr_config out)) ''provider configuration''"
  let ?g1 = "record_call ?e1 g"
  have g1: "g_projectRoot ?g1 = g_projectRoot g" "g_plugins ?g1 = g_plugins g"
    "g_calls ?g1 = g_calls g @ [?e1]"
    by (simp_all add: record_call_def)
  let ?ms = "case cr_moduleConfigs out of Some ms \<Rightarrow> ms | None \<Rightarrow> []"
  let ?bases = "getPluginBases hs plugin (keyBy (g_plugins g))"
  from run obtain v where
    v: "validateWithPath hs (omit_path (cr_config out)) ?own (g_projectRoot g)
          ''provider configuration'' = Inr v"
    by (auto simp: afterConfigure_def validateConfig_eq split: sum.splits)
  obtain r2 g2 where b: "validateBases hs ?bases (set_path (g_projectRoot g) v) ?g1 = (r2, g2)"
    by force
  from run v b obtain c' where r2: "r2 = Inr c'"
    by (cases r2) (auto simp: afterConfigure_def validateConfig_eq g1 Let_def)
  let ?tmp = "providerFromConfig c' deps ?ms defaultEnvironmentStatus"
  obtain r3 g3 where e: "ensurePrepared actions (t_forceInit task) ?tmp g2 = (r3, g3)" by force
  from run v b r2 e obtain status where r3: "r3 = Inr status"
    and prov: "provider = providerFromConfig c' deps ?ms status" and g3: "g3 = g'"
    by (cases r3) (auto simp: afterConfigure_def validateConfig_eq g1 Let_def)
  from validateBases_chain [OF b [unfolded r2]] obtain cs where cs:
    "length cs = Suc (length (bases_with_schema hs plugin g))"
    "hd cs = set_path (g_projectRoot g) v" "last cs = c'"
    "\<forall>i < length (bases_with_schema hs plugin g).
         validateWithPath hs (omit_path (cs ! i))
           (unknown hs (the (gp_configSchema (bases_with_schema hs plugin g ! i))))
           (g_projectRoot g)
           (base_config_type (gp_name (bases_with_schema hs plugin g ! i))) = Inr (cs ! Suc i)"
    "g_calls g2 = g_calls ?g1 @ map (base_validation hs) (zip (bases_with_schema hs plugin g) cs)"
    unfolding bases_with_schema_def g1 by blast
  from ensurePrepared_calls [of actions "t_forceInit task" ?tmp g2] e g3 obtain rest where
    rest: "g_calls g' = g_calls g2 @ rest"
      "list_all (\<lambda>e. \<not> is_validate_call e \<and> \<not> is_configure_call e) rest"
    by auto
  have "last cs = p_config provider" using cs(3) prov by (simp add: providerFromConfig_def)
  moreover have "g_calls g' = g_calls g @ ?e1 #
        map (base_validation hs) (zip (bases_with_schema hs plugin g) cs) @ rest"
    using rest(1) cs(5) g1(3) by simp
  ultimately show ?thesis using v cs(1,2,4) rest(2) by blast
qed

text \<open>
  Claim C5, as the code has it. In a run of \<open>process\<close> that produces a Provider (the
  memo having no entry for the name), the config that \<open>configureProvider\<close> returned is
  validated, without its path, against the plugin's own schema (\<open>joi.object()\<close> when it
  has none). Then every base of the plugin that has a schema validates, in the order of
  \<open>getPluginBases\<close> and with unknown keys accepted, the config current at that point
  without its path: the first base gets the result of the own-schema validation, every
  later base the result of the validation before it, and the last result is the
  Provider's config. Bases without a schema are skipped, and no other validation follows.
\<close>

theorem process_validates_configure_output:
  assumes run: "process hs actions task deps g = (Inr provider, g')"
      and miss: "g_resolvedProviders g (pc_name (t_config task)) = None"
  shows "\<exists>plugin rc params out v cs rest.
      t_plugin task = Some plugin \<and>
      ar_configureProvider actions params = Inr out \<and>
      validateWithPath hs (omit_path (cr_config out)) (own_schema hs plugin) (g_projectRoot g)
        ''provider configuration'' = Inr v \<and>
      length cs = Suc (length (bases_with_schema hs plugin g)) \<and>
      hd cs = set_path (g_projectRoot g) v \<and> last cs = p_config provider \<and>
      (\<forall>i < length (bases_with_schema hs plugin g).
         validateWithPath hs (omit_path (cs ! i))
           (unknown hs (the (gp_configSchema (bases_with_schema hs plugin g ! i))))
           (g_projectRoot g)
           (base_config_type (gp_name (bases_with_schema hs plugin g ! i))) = Inr (cs ! Suc i)) \<and>
      g_calls g' = g_calls g @
        [EvResolveTemplateStrings (t_config task),
         EvValidate (own_schema hs plugin) (omit_path rc) ''provider configuration'',
         EvConfigureProvider params,
         EvValidate (own_schema hs plugin) (omit_path (cr_config out)) ''provider configuration''] @
        map (base_validation hs) (zip (bases_with_schema hs plugin g) cs) @ rest \<and>
      list_all (\<lambda>e. \<not> is_validate_call e \<and> \<not> is_configure_call e) rest"
proof -
  let ?ctx = "\<lparr>ctx_projectName = g_projectName g, ctx_environmentName = g_environmentName g,
              ctx_providers = deps, ctx_variables = g_variables g, ctx_secrets = g_secrets g\<rparr>"
  let ?e0 = "EvResolveTemplateStrings (t_config task)"
  let ?g1 = "record_call ?e0 g"
  from run miss obtain rc where rc: "resolveTemplateStrings hs (t_config task) ?ctx = Inr rc"
    by (auto simp: process_def Let_def split: sum.splits)
  from run miss rc obtain plugin where plugin: "t_plugin task = Some plugin"
    by (auto simp: process_def Let_def split: option.splits)
  let ?own = "own_schema hs plugin"
  let ?e1 = "EvValidate ?own (omit_path rc) ''provider configuration''"
  let ?g2 = "record_call ?e1 ?g1"
  from run miss rc plugin obtain v0 where
    v0: "validateWithPath hs (omit_path rc) ?own (g_projectRoot g) ''provider configuration'' = Inr v0"
    by (auto simp: process_def Let_def validateConfig_eq record_call_def split: sum.splits)
  let ?params = "\<lparr>cp_environmentName = g_environmentName g, cp_namespace = g_namespace g,
                   cp_pluginName = pc_name rc,
                   cp_config = set_path (g_projectRoot g) v0,
                   cp_projectName = g_projectName g, cp_projectRoot = g_projectRoot g,
                   cp_dependencies = deps\<rparr>"
  let ?g3 = "record_call (EvConfigureProvider ?params) ?g2"
  have g3: "g_projectRoot ?g3 = g_projectRoot g" "g_plugins ?g3 = g_plugins g"
    "g_calls ?g3 = g_calls g @ [?e0, ?e1, EvConfigureProvider ?params]"
    by (simp_all add: record_call_def)
  from run miss rc plugin v0 obtain out where
    out: "ar_configureProvider actions ?params = Inr out"
    by (auto simp: process_def Let_def validateConfig_eq record_call_def split: sum.splits)
  from run miss rc plugin v0 out
  have after: "afterConfigure hs actions task plugin deps out ?g3 = (Inr provider, g')"
    by (simp add: process_def Let_def validateConfig_eq record_call_def)
  have bs: "bases_with_schema hs plugin ?g3 = bases_with_schema hs plugin g"
    by (simp add: bases_with_schema_def g3)
  from afterConfigure_success [OF after, unfolded bs g3]
  obtain v cs rest where
    "validateWithPath hs (omit_path (cr_config out)) ?own (g_projectRoot g)
        ''provider configuration'' = Inr v"
    "length cs = Suc (length (bases_with_schema hs plugin g))"
    "hd cs = set_path (g_projectRoot g) v" "last cs = p_config provider"
    "\<forall>i < length (bases_with_schema hs plugin g).
         validateWithPath hs (omit_path (cs ! i))
           (unknown hs (the (gp_configSchema (bases_with_schema hs plugin g ! i))))
           (g_projectRoot g)
           (base_config_type (gp_name (bases_with_schema hs plugin g ! i))) = Inr (cs ! Suc i)"
    "g_calls g' = (g_calls g @ [?e0, ?e1, EvConfigureProvider ?params]) @
        EvValidate ?own (omit_path (cr_config out)) ''provider configuration'' #
        map (base_validation hs) (zip (bases_with_schema hs plugin g) cs) @ rest"
    "list_all (\<lambda>e. \<not> is_validate_call e \<and> \<not> is_configure_call e) rest"
    by blast
  with plugin out show ?thesis
    by (intro exI [of _ plugin] exI [of _ rc] exI [of _ ?params] exI [of _ out]
          exI [of _ v] exI [of _ cs] exI [of _ rest]) simp
qed

lemmas engine_eval =
  process_def afterConfigure_def validateConfig_def ensurePrepared_def getActionHandler_def
  providerFromConfig_def record_call_def set_path_def omit_path_def engine_imports_def
  check_schema_def fill_defaults_def child_task_def engine_garden_def parent_plugin_def
  mid_plugin_def child_plugin_def keyBy_def defaultEnvironmentStatus_def Let_def
  eval_nat_numeral

theorem process_validates_configure_output_witness:
  "g_resolvedProviders engine_garden (pc_name (t_config child_task)) = None
   \<and> fst (process engine_imports router_keeps child_task [] engine_garden) =
       Inr (Provider ''child'' [] []
              \<lparr>pc_name = ''child'',
                 pc_fields = [(''replicas'', JNum 2), (''mode'', JStr ''fast'')]\<rparr>
              defaultEnvironmentStatus)
   \<and> bases_with_schema engine_imports child_plugin engine_garden = [parent_plugin]"
proof -
  have miss: "g_resolvedProviders engine_garden (pc_name (t_config child_task)) = None"
    by (simp add: engine_garden_def)
  have res: "fst (process engine_imports router_keeps child_task [] engine_garden) =
       Inr (Provider ''child'' [] []
              \<lparr>pc_name = ''child'',
                 pc_fields = [(''replicas'', JNum 2), (''mode'', JStr ''fast'')]\<rparr>
              defaultEnvironmentStatus)"
    by (simp add: engine_eval router_keeps_def)
  then have run: "process engine_imports router_keeps child_task [] engine_garden =
       (Inr (Provider ''child'' [] []
              \<lparr>pc_name = ''child'',
                 pc_fields = [(''replicas'', JNum 2), (''mode'', JStr ''fast'')]\<rparr>
              defaultEnvironmentStatus),
        snd (process engine_imports router_keeps child_task [] engine_garden))"
    by (simp add: prod_eq_iff)
  have bs: "bases_with_schema engine_imports child_plugin engine_garden = [parent_plugin]"
    by (simp add: bases_with_schema_def engine_eval)
  from process_validates_configure_output [OF run miss] miss res bs show ?thesis by blast
qed

text \<open>
  The claim as stated fails where a validation changes the config. Here the handler
  returns the config without the key \<open>mode\<close>; the own-schema validation fills in the
  default \<open>mode\<close>, and the base schema is given that result, not the returned config.
\<close>

theorem process_validates_same_config_counterexample:
  "ar_configureProvider router_drops_mode
      \<lparr>cp_environmentName = ''local'', cp_namespace = None, cp_pluginName = ''child'',
         cp_config = \<lparr>pc_name = ''child'',
                        pc_fields = [(''replicas'', JNum 2), (''mode'', JStr ''fast''),
                                     (''path'', JStr ''/project'')]\<rparr>,
         cp_projectName = ''demo'', cp_projectRoot = ''/project'', cp_dependencies = []\<rparr> =
     Inr \<lparr>cr_config = \<lparr>pc_name = ''child'',
                          pc_fields = [(''replicas'', JNum 2), (''path'', JStr ''/project'')]\<rparr>,
           cr_moduleConfigs = None\<rparr>
   \<and> g_calls (snd (process engine_imports router_drops_mode child_task [] engine_garden)) =
      [EvResolveTemplateStrings \<lparr>pc_name = ''child'', pc_fields = [(''replicas'', JNum 2)]\<rparr>,
       EvValidate \<lparr>sc_defaults = [(''mode'', JStr ''fast'')], sc_numbers = [''replicas''],
                    sc_unknown = False\<rparr>
         \<lparr>pc_name = ''child'', pc_fields = [(''replicas'', JNum 2)]\<rparr> ''provider configuration'',
       EvConfigureProvider
         \<lparr>cp_environmentName = ''local'', cp_namespace = None, cp_pluginName = ''child'',
            cp_config = \<lparr>pc_name = ''child'',
                           pc_fields = [(''replicas'', JNum 2), (''mode'', JStr ''fast''),
                                        (''path'', JStr ''/project'')]\<rparr>,
            cp_projectName = ''demo'', cp_projectRoot = ''/project'', cp_dependencies = []\<rparr>,
       EvValidate \<lparr>sc_defaults = [(''mode'', JStr ''fast'')], sc_numbers = [''replicas''],
                    sc_unknown = False\<rparr>
         \<lparr>pc_name = ''child'', pc_fields = [(''replicas'', JNum 2)]\<rparr> ''provider configuration'',
       EvValidate \<lparr>sc_defaults = [], sc_numbers = [''replicas''], sc_unknown = True\<rparr>
         \<lparr>pc_name = ''child'', pc_fields = [(''replicas'', JNum 2), (''mode'', JStr ''fast'')]\<rparr>
         (base_config_type ''parent''),
       EvGetEnvironmentStatus ''child'']
   \<and> omit_path \<lparr>pc_name = ''child'',
                   pc_fields = [(''replicas'', JNum 2), (''path'', JStr ''/project'')]\<rparr> \<noteq>
       \<lparr>pc_name = ''child'', pc_fields = [(''replicas'', JNum 2), (''mode'', JStr ''fast'')]\<rparr>"
  by (simp add: engine_eval router_drops_mode_def)

section \<open>Properties of the environment selection\<close>

subsection \<open>JSON Merge Patch, key by key\<close>

lemma merge_patch_scalar:
  "\<forall>ps. v \<noteq> JObj ps \<Longrightarrow> merge_patch t v = v"
  by (cases v) simp_all

lemma patch_fields_lookup:
  assumes "distinct (map fst ps)"
  shows "map_of (patch_fields ts ps) k =
           (case map_of ps k of
              None \<Rightarrow> map_of ts k
            | Some v \<Rightarrow>
                if v = JNull then None
                else Some (merge_patch (case map_of ts k of Some t \<Rightarrow> t | None \<Rightarrow> JNull) v))"
  using assms
proof (induction ps arbitrary: ts)
  case Nil
  show ?case by simp
next
  case (Cons kv ps)
  obtain k' v' where kv: "kv = (k', v')" by (cases kv)
  from Cons.prems kv have d: "distinct (map fst ps)" and notin: "k' \<notin> fst ` set ps" by auto
  from notin have none: "map_of ps k' = None" by (simp add: map_of_eq_None_iff)
  define ts' where "ts' =
     (if v' = JNull then AList.delete k' ts
      else AList.update k'
             (merge_patch (case map_of ts k' of Some t \<Rightarrow> t | None \<Rightarrow> JNull) v') ts)"
  have step: "patch_fields ts (kv # ps) = patch_fields ts' ps" by (simp add: kv ts'_def)
  have here: "map_of ts' k' =
     (if v' = JNull then None
      else Some (merge_patch (case map_of ts k' of Some t \<Rightarrow> t | None \<Rightarrow> JNull) v'))"
    by (simp add: ts'_def update_conv' delete_conv')
  have other: "k \<noteq> k' \<Longrightarrow> map_of ts' k = map_of ts k"
    by (simp add: ts'_def update_conv' delete_conv')
  show ?case
  proof (cases "k = k'")
    case True
    with none here show ?thesis
      unfolding step Cons.IH [OF d] by (simp add: kv)
  next
    case False
    with other have eq: "map_of ts' k = map_of ts k" by simp
    from False show ?thesis
      unfolding step Cons.IH [OF d] eq by (simp add: kv)
  qed
qed

subsection \<open>Grouping by name\<close>

lemma pc_name_patch_provider: "pc_name (patch_provider a p) = pc_name a"
  by (simp add: patch_provider_def)

lemma names_merge_into:
  "map pc_name (merge_into acc p) =
     (if pc_name p \<in> set (map pc_name acc) then map pc_name acc
      else map pc_name acc @ [pc_name p])"
  by (induction acc) (auto simp: pc_name_patch_provider)

lemma remdups_drop_repeated:
  "n \<in> set zs \<Longrightarrow> remdups (ys @ n # zs) = remdups (ys @ zs)"
  by (induction ys) auto

lemma first_seen_snoc:
  "rev (remdups (rev (xs @ [x]))) =
     (if x \<in> set xs then rev (remdups (rev xs)) else rev (remdups (rev xs)) @ [x])"
  by simp

lemma first_seen_Cons:
  "rev (remdups (rev (x # xs))) = x # rev (remdups (rev (filter (\<lambda>y. y \<noteq> x) xs)))"
proof (induction xs rule: rev_induct)
  case Nil
  show ?case by simp
next
  case (snoc y xs)
  have "rev (remdups (rev (x # xs @ [y]))) =
          (if y \<in> set (x # xs) then rev (remdups (rev (x # xs)))
           else rev (remdups (rev (x # xs))) @ [y])"
    using first_seen_snoc [of "x # xs" y] by simp
  also have "\<dots> = x # rev (remdups (rev (filter (\<lambda>y. y \<noteq> x) (xs @ [y]))))"
    using snoc.IH by (cases "y = x") auto
  finally show ?case by simp
qed

lemma names_foldl_merge_into:
  assumes "distinct (map pc_name acc)"
  shows "map pc_name (foldl merge_into acc ps) =
           rev (remdups (rev (map pc_name acc @ map pc_name ps)))"
  using assms
proof (induction ps arbitrary: acc)
  case Nil
  then show ?case by (simp add: distinct_remdups_id)
next
  case (Cons p ps)
  have d: "distinct (map pc_name (merge_into acc p))"
    using Cons.prems by (simp add: names_merge_into)
  show ?case
  proof (cases "pc_name p \<in> set (map pc_name acc)")
    case True
    then have "remdups (rev (map pc_name ps) @ pc_name p # rev (map pc_name acc)) =
               remdups (rev (map pc_name ps) @ rev (map pc_name acc))"
      by (intro remdups_drop_repeated) simp
    with True Cons.IH [OF d] show ?thesis by (simp add: names_merge_into)
  next
    case False
    with Cons.IH [OF d] show ?thesis by (simp add: names_merge_into)
  qed
qed

lemma names_mergeProviders:
  "map pc_name (mergeProviders ps) = rev (remdups (rev (map pc_name ps)))"
  using names_foldl_merge_into [of "[]" ps] by (simp add: mergeProviders_def)

lemma distinct_names_mergeProviders: "distinct (map pc_name (mergeProviders ps))"
  by (simp add: names_mergeProviders)

lemma find_merge_into:
  "find (\<lambda>a. pc_name a = n) (merge_into acc p) =
     (if pc_name p = n
      then Some (case find (\<lambda>a. pc_name a = n) acc of
                   Some a \<Rightarrow> patch_provider a p | None \<Rightarrow> p)
      else find (\<lambda>a. pc_name a = n) acc)"
  by (induction acc) (auto simp: pc_name_patch_provider)

lemma foldl_patch_Some:
  "foldl (\<lambda>entry g. Some (case entry of Some a \<Rightarrow> patch_provider a g | None \<Rightarrow> g)) (Some a) gs =
     Some (foldl patch_provider a gs)"
  by (induction gs arbitrary: a) simp_all

lemma find_foldl_merge_into:
  "find (\<lambda>a. pc_name a = n) (foldl merge_into acc ps) =
     foldl (\<lambda>entry g. Some (case entry of Some a \<Rightarrow> patch_provider a g | None \<Rightarrow> g))
       (find (\<lambda>a. pc_name a = n) acc) (filter (\<lambda>p. pc_name p = n) ps)"
  by (induction ps arbitrary: acc) (simp_all add: find_merge_into)

lemma find_by_distinct_name:
  assumes "distinct (map pc_name xs)" and "x \<in> set xs"
  shows "find (\<lambda>a. pc_name a = pc_name x) xs = Some x"
  using assms by (induction xs) auto

lemma entry_foldl_merge_into:
  assumes "distinct (map pc_name acc)" and "a \<in> set acc"
  shows "find (\<lambda>b. pc_name b = pc_name a) (foldl merge_into acc ps) =
           Some (foldl patch_provider a (filter (\<lambda>p. pc_name p = pc_name a) ps))"
  using assms
  by (simp add: find_foldl_merge_into find_by_distinct_name foldl_patch_Some)

lemma mergeProviders_entry:
  assumes "r \<in> set (mergeProviders ps)"
  shows "filter (\<lambda>p. pc_name p = pc_name r) ps \<noteq> [] \<and>
         r = foldl patch_provider (hd (filter (\<lambda>p. pc_name p = pc_name r) ps))
               (tl (filter (\<lambda>p. pc_name p = pc_name r) ps))"
proof -
  let ?grp = "filter (\<lambda>p. pc_name p = pc_name r) ps"
  let ?step = "\<lambda>entry g. Some (case entry of Some a \<Rightarrow> patch_provider a g | None \<Rightarrow> g)"
  have "find (\<lambda>a. pc_name a = pc_name r) (mergeProviders ps) = Some r"
    using distinct_names_mergeProviders assms by (rule find_by_distinct_name)
  then have r: "foldl ?step None ?grp = Some r"
    using find_foldl_merge_into [of "pc_name r" "[]" ps] by (simp add: mergeProviders_def)
  show ?thesis
  proof (cases ?grp)
    case Nil
    with r show ?thesis by simp
  next
    case (Cons g gs)
    with r have "Some (foldl patch_provider g gs) = Some r" by (simp add: foldl_patch_Some)
    with Cons show ?thesis by simp
  qed
qed

lemma pickEnvironment_providers:
  assumes "pickEnvironment defaults files config env = Inr r"
  shows "re_providers r =
           mergeProviders (fixedProviders @
             filter (applies_to (re_environmentName r)) (proj_providers config))"
  using assms
  by (auto simp: pickEnvironment_def split: sum.splits prod.splits)

text \<open>
  Claim C6. The provider list of a selected environment is the patch merge of the
  built-in fragments followed by the fragments that apply to the environment. For every
  list of fragments, filtered by the target environment: the merged list has one entry
  per distinct name, in the order in which the names are first seen; each entry is the
  first fragment of its name with the later fragments of that name merged onto it in
  list order; and a patch acts on the accumulated keys as a JSON Merge Patch: a key set to
  \<open>null\<close> is deleted, a key the patch does not have is kept, a value that is not an
  object replaces what was there, and an object is merged into what was there. The
  fragments \<open>[{name:"p",a:"a"},{name:"p",b:"b"},{name:"p",a:null}]\<close> merge to
  \<open>{name:"p", b:"b"}\<close>.
\<close>

theorem mergeProviders_groups_and_patches:
  "map pc_name (mergeProviders (filter (applies_to environment) frags)) =
     rev (remdups (rev (map pc_name (filter (applies_to environment) frags))))
   \<and> (\<forall>r \<in> set (mergeProviders (filter (applies_to environment) frags)).
        filter (\<lambda>p. pc_name p = pc_name r) (filter (applies_to environment) frags) \<noteq> [] \<and>
        r = foldl patch_provider
              (hd (filter (\<lambda>p. pc_name p = pc_name r) (filter (applies_to environment) frags)))
              (tl (filter (\<lambda>p. pc_name p = pc_name r) (filter (applies_to environment) frags))))
   \<and> (\<forall>acc p k. distinct (map fst (pc_fields p)) \<longrightarrow>
        map_of (pc_fields (patch_provider acc p)) k =
          (case map_of (pc_fields p) k of
             None \<Rightarrow> map_of (pc_fields acc) k
           | Some JNull \<Rightarrow> None
           | Some (JObj ps) \<Rightarrow>
               Some (merge_patch (case map_of (pc_fields acc) k of Some t \<Rightarrow> t | None \<Rightarrow> JNull)
                       (JObj ps))
           | Some v \<Rightarrow> Some v))
   \<and> (\<forall>r. pickEnvironment defaults files config env = Inr r \<longrightarrow>
        re_providers r =
          mergeProviders (filter (applies_to (re_environmentName r))
                            (fixedProviders @ proj_providers config)))
   \<and> mergeProviders
       [\<lparr>pc_name = ''p'', pc_fields = [(''a'', JStr ''a'')]\<rparr>,
        \<lparr>pc_name = ''p'', pc_fields = [(''b'', JStr ''b'')]\<rparr>,
        \<lparr>pc_name = ''p'', pc_fields = [(''a'', JNull)]\<rparr>] =
       [\<lparr>pc_name = ''p'', pc_fields = [(''b'', JStr ''b'')]\<rparr>]"
proof (intro conjI)
  show "map pc_name (mergeProviders (filter (applies_to environment) frags)) =
     rev (remdups (rev (map pc_name (filter (applies_to environment) frags))))"
    by (rule names_mergeProviders)
  show "\<forall>r \<in> set (mergeProviders (filter (applies_to environment) frags)).
        filter (\<lambda>p. pc_name p = pc_name r) (filter (applies_to environment) frags) \<noteq> [] \<and>
        r = foldl patch_provider
              (hd (filter (\<lambda>p. pc_name p = pc_name r) (filter (applies_to environment) frags)))
              (tl (filter (\<lambda>p. pc_name p = pc_name r) (filter (applies_to environment) frags)))"
    using mergeProviders_entry by blast
  show "\<forall>acc p k. distinct (map fst (pc_fields p)) \<longrightarrow>
        map_of (pc_fields (patch_provider acc p)) k =
          (case map_of (pc_fields p) k of
             None \<Rightarrow> map_of (pc_fields acc) k
           | Some JNull \<Rightarrow> None
           | Some (JObj ps) \<Rightarrow>
               Some (merge_patch (case map_of (pc_fields acc) k of Some t \<Rightarrow> t | None \<Rightarrow> JNull)
                       (JObj ps))
           | Some v \<Rightarrow> Some v)"
    by (auto simp: patch_provider_def patch_fields_lookup split: option.splits json.splits)
  show "\<forall>r. pickEnvironment defaults files config env = Inr r \<longrightarrow>
        re_providers r =
          mergeProviders (filter (applies_to (re_environmentName r))
                            (fixedProviders @ proj_providers config))"
    by (auto simp: pickEnvironment_providers fixedProviders_def applies_to_def)
  show "mergeProviders
       [\<lparr>pc_name = ''p'', pc_fields = [(''a'', JStr ''a'')]\<rparr>,
        \<lparr>pc_name = ''p'', pc_fields = [(''b'', JStr ''b'')]\<rparr>,
        \<lparr>pc_name = ''p'', pc_fields = [(''a'', JNull)]\<rparr>] =
       [\<lparr>pc_name = ''p'', pc_fields = [(''b'', JStr ''b'')]\<rparr>]"
    by (simp add: mergeProviders_def patch_provider_def)
qed

text \<open>The definitions that evaluate \<open>pickEnvironment\<close> on a concrete project.\<close>

lemmas pick_eval =
  pickEnvironment_def selectEnvironment_def parseEnvironment_def valid_segment_def
  loadVarfile_def varfile_required_def varfile_path_def mergeProviders_def patch_provider_def
  fixedProviders_def applies_to_def merge_variables_def test_defaults_def no_files_def
  test_project_def varfile_not_found_def quoted_def Let_def

theorem mergeProviders_groups_and_patches_witness:
  "\<lparr>pc_name = ''my-provider'', pc_fields = [(''b'', JStr ''b'')]\<rparr>
     \<in> set (mergeProviders (filter (applies_to ''default'') null_test_providers))
   \<and> distinct (map fst (pc_fields \<lparr>pc_name = ''my-provider'', pc_fields = [(''a'', JNull)]\<rparr>))
   \<and> map_of (pc_fields (patch_provider
         \<lparr>pc_name = ''my-provider'', pc_fields = [(''a'', JStr ''a''), (''b'', JStr ''b'')]\<rparr>
         \<lparr>pc_name = ''my-provider'', pc_fields = [(''a'', JNull)]\<rparr>)) ''a'' = None
   \<and> pickEnvironment test_defaults no_files (test_project\<lparr>proj_providers := null_test_providers\<rparr>)
       ''default'' =
      Inr \<lparr>re_environmentName = ''default'', re_namespace = None, re_production = False,
           re_providers = [\<lparr>pc_name = ''exec'', pc_fields = []\<rparr>,
                           \<lparr>pc_name = ''container'', pc_fields = [(''newKey'', JStr ''foo'')]\<rparr>,
                           \<lparr>pc_name = ''my-provider'', pc_fields = [(''b'', JStr ''b'')]\<rparr>],
           re_variables = []\<rparr>"
  using mergeProviders_groups_and_patches
          [of "''default''" null_test_providers test_defaults no_files
              "test_project\<lparr>proj_providers := null_test_providers\<rparr>" "''default''"]
  by (simp add: pick_eval null_test_providers_def)

subsection \<open>The built-in providers\<close>

lemma mergeProviders_fixed:
  "mergeProviders (fixedProviders @ ps) = foldl merge_into fixedProviders ps"
  by (simp add: mergeProviders_def fixedProviders_def)

lemma names_with_fixed:
  "map pc_name (mergeProviders (fixedProviders @ ps)) =
     ''exec'' # ''container'' #
       rev (remdups (rev (filter (\<lambda>n. n \<noteq> ''exec'' \<and> n \<noteq> ''container'') (map pc_name ps))))"
proof -
  have "map pc_name (mergeProviders (fixedProviders @ ps)) =
          rev (remdups (rev (''exec'' # ''container'' # map pc_name ps)))"
    unfolding names_mergeProviders by (simp add: fixedProviders_def)
  also have "\<dots> = ''exec'' # rev (remdups (rev (''container'' #
                       filter (\<lambda>n. n \<noteq> ''exec'') (map pc_name ps))))"
    unfolding first_seen_Cons [of "''exec''"] by simp
  also have "\<dots> = ''exec'' # ''container'' # rev (remdups (rev
                       (filter (\<lambda>n. n \<noteq> ''container'') (filter (\<lambda>n. n \<noteq> ''exec'') (map pc_name ps)))))"
    unfolding first_seen_Cons [of "''container''"] by simp
  also have "filter (\<lambda>n. n \<noteq> ''container'') (filter (\<lambda>n. n \<noteq> ''exec'') (map pc_name ps)) =
             filter (\<lambda>n. n \<noteq> ''exec'' \<and> n \<noteq> ''container'') (map pc_name ps)"
    by (simp add: conj_commute)
  finally show ?thesis .
qed

lemma entry_at_index:
  assumes d: "distinct (map pc_name xs)" and i: "i < length xs"
      and f: "find (\<lambda>b. pc_name b = pc_name (xs ! i)) xs = Some e"
  shows "xs ! i = e"
proof -
  from i have "xs ! i \<in> set xs" by simp
  with d have "find (\<lambda>a. pc_name a = pc_name (xs ! i)) xs = Some (xs ! i)"
    by (rule find_by_distinct_name)
  with f show ?thesis by simp
qed

lemma builtin_entries:
  fixes ps :: "ProviderConfig list"
  defines "out \<equiv> mergeProviders (fixedProviders @ ps)"
  shows "out ! 0 = foldl patch_provider \<lparr>pc_name = ''exec'', pc_fields = []\<rparr>
                     (filter (\<lambda>p. pc_name p = ''exec'') ps)"
    and "out ! 1 = foldl patch_provider \<lparr>pc_name = ''container'', pc_fields = []\<rparr>
                     (filter (\<lambda>p. pc_name p = ''container'') ps)"
    and "2 \<le> length out"
proof -
  have names: "map pc_name out = ''exec'' # ''container'' #
       rev (remdups (rev (filter (\<lambda>n. n \<noteq> ''exec'' \<and> n \<noteq> ''container'') (map pc_name ps))))"
    unfolding out_def by (rule names_with_fixed)
  then have "length (map pc_name out) \<ge> 2" by simp
  then show len: "2 \<le> length out" by simp
  have d: "distinct (map pc_name out)"
    unfolding out_def by (rule distinct_names_mergeProviders)
  have n0: "pc_name (out ! 0) = ''exec''"
  proof -
    have "map pc_name out ! 0 = ''exec''" unfolding names by simp
    moreover have "0 < length out" using len by linarith
    ultimately show ?thesis by (simp del: length_greater_0_conv)
  qed
  have n1: "pc_name (out ! 1) = ''container''"
  proof -
    have "map pc_name out ! 1 = ''container''" unfolding names by simp
    moreover have "1 < length out" using len by linarith
    ultimately show ?thesis by simp
  qed
  have dfix: "distinct (map pc_name fixedProviders)" by (simp add: fixedProviders_def)
  have f0: "find (\<lambda>b. pc_name b = ''exec'') out =
              Some (foldl patch_provider \<lparr>pc_name = ''exec'', pc_fields = []\<rparr>
                      (filter (\<lambda>p. pc_name p = ''exec'') ps))"
    using entry_foldl_merge_into [OF dfix, of "\<lparr>pc_name = ''exec'', pc_fields = []\<rparr>" ps]
    unfolding out_def mergeProviders_fixed by (simp add: fixedProviders_def)
  have f1: "find (\<lambda>b. pc_name b = ''container'') out =
              Some (foldl patch_provider \<lparr>pc_name = ''container'', pc_fields = []\<rparr>
                      (filter (\<lambda>p. pc_name p = ''container'') ps))"
    using entry_foldl_merge_into [OF dfix, of "\<lparr>pc_name = ''container'', pc_fields = []\<rparr>" ps]
    unfolding out_def mergeProviders_fixed by (simp add: fixedProviders_def)
  show "out ! 0 = foldl patch_provider \<lparr>pc_name = ''exec'', pc_fields = []\<rparr>
                     (filter (\<lambda>p. pc_name p = ''exec'') ps)"
  proof (rule entry_at_index [OF d])
    show "0 < length out" using len by linarith
    show "find (\<lambda>b. pc_name b = pc_name (out ! 0)) out =
            Some (foldl patch_provider \<lparr>pc_name = ''exec'', pc_fields = []\<rparr>
                    (filter (\<lambda>p. pc_name p = ''exec'') ps))"
      unfolding n0 by (rule f0)
  qed
  show "out ! 1 = foldl patch_provider \<lparr>pc_name = ''container'', pc_fields = []\<rparr>
                     (filter (\<lambda>p. pc_name p = ''container'') ps)"
  proof (rule entry_at_index [OF d])
    show "1 < length out" using len by linarith
    show "find (\<lambda>b. pc_name b = pc_name (out ! 1)) out =
            Some (foldl patch_provider \<lparr>pc_name = ''container'', pc_fields = []\<rparr>
                    (filter (\<lambda>p. pc_name p = ''container'') ps))"
      unfolding n1 by (rule f1)
  qed
qed

lemma take_two: "2 \<le> length xs \<Longrightarrow> take 2 xs = [xs ! 0, xs ! 1]"
  by (cases xs; cases "tl xs") auto

text \<open>
  Claim C2, as the tests have it. In the provider list of a selected environment the
  first two entries are named \<open>exec\<close> and \<open>container\<close>, in that order, ahead of every
  other provider, and the names that follow are the other names the user declared for
  the environment, in first-seen order. The two entries are the built-in fragments with
  the user's fragments of the same name (those that apply to the environment) merged onto
  them as JSON Merge Patches; when the user declares no such fragment they are exactly
  \<open>{name: "exec"}\<close> and \<open>{name: "container"}\<close>.
\<close>

theorem pickEnvironment_builtin_providers:
  assumes ok: "pickEnvironment defaults files config env = Inr r"
  shows "map pc_name (take 2 (re_providers r)) = [''exec'', ''container'']
   \<and> re_providers r ! 0 =
       foldl patch_provider \<lparr>pc_name = ''exec'', pc_fields = []\<rparr>
         (filter (\<lambda>p. pc_name p = ''exec'')
            (filter (applies_to (re_environmentName r)) (proj_providers config)))
   \<and> re_providers r ! 1 =
       foldl patch_provider \<lparr>pc_name = ''container'', pc_fields = []\<rparr>
         (filter (\<lambda>p. pc_name p = ''container'')
            (filter (applies_to (re_environmentName r)) (proj_providers config)))
   \<and> map pc_name (drop 2 (re_providers r)) =
       rev (remdups (rev (filter (\<lambda>n. n \<noteq> ''exec'' \<and> n \<noteq> ''container'')
         (map pc_name (filter (applies_to (re_environmentName r)) (proj_providers config))))))
   \<and> ((\<forall>p \<in> set (filter (applies_to (re_environmentName r)) (proj_providers config)).
          pc_name p \<noteq> ''exec'' \<and> pc_name p \<noteq> ''container'') \<longrightarrow>
        take 2 (re_providers r) = fixedProviders)"
proof -
  let ?U = "filter (applies_to (re_environmentName r)) (proj_providers config)"
  have out: "re_providers r = mergeProviders (fixedProviders @ ?U)"
    using ok by (rule pickEnvironment_providers)
  note e = builtin_entries [of ?U, folded out]
  have names: "map pc_name (re_providers r) = ''exec'' # ''container'' #
       rev (remdups (rev (filter (\<lambda>n. n \<noteq> ''exec'' \<and> n \<noteq> ''container'') (map pc_name ?U))))"
    unfolding out by (rule names_with_fixed)
  have a: "map pc_name (take 2 (re_providers r)) = [''exec'', ''container'']"
    unfolding take_map [symmetric] names by simp
  have b: "map pc_name (drop 2 (re_providers r)) =
       rev (remdups (rev (filter (\<lambda>n. n \<noteq> ''exec'' \<and> n \<noteq> ''container'') (map pc_name ?U))))"
    unfolding drop_map [symmetric] names by simp
  have c: "(\<forall>p \<in> set ?U. pc_name p \<noteq> ''exec'' \<and> pc_name p \<noteq> ''container'') \<longrightarrow>
        take 2 (re_providers r) = fixedProviders"
  proof
    assume none: "\<forall>p \<in> set ?U. pc_name p \<noteq> ''exec'' \<and> pc_name p \<noteq> ''container''"
    then have "filter (\<lambda>p. pc_name p = ''exec'') ?U = []"
      and "filter (\<lambda>p. pc_name p = ''container'') ?U = []"
      by (auto simp: filter_empty_conv)
    with e show "take 2 (re_providers r) = fixedProviders"
      by (simp add: take_two fixedProviders_def)
  qed
  from a e(1) e(2) b c show ?thesis by blast
qed

theorem pickEnvironment_builtin_providers_witness:
  "pickEnvironment test_defaults no_files test_project ''default'' =
     Inr \<lparr>re_environmentName = ''default'', re_namespace = None, re_production = False,
          re_providers = [\<lparr>pc_name = ''exec'', pc_fields = []\<rparr>,
                          \<lparr>pc_name = ''container'', pc_fields = []\<rparr>],
          re_variables = []\<rparr>
   \<and> take 2 [\<lparr>pc_name = ''exec'', pc_fields = []\<rparr>,
              \<lparr>pc_name = ''container'', pc_fields = []\<rparr>] = fixedProviders"
proof -
  have ok: "pickEnvironment test_defaults no_files test_project ''default'' =
     Inr \<lparr>re_environmentName = ''default'', re_namespace = None, re_production = False,
          re_providers = [\<lparr>pc_name = ''exec'', pc_fields = []\<rparr>,
                          \<lparr>pc_name = ''container'', pc_fields = []\<rparr>],
          re_variables = []\<rparr>"
    by (simp add: pick_eval)
  from pickEnvironment_builtin_providers [OF ok] ok show ?thesis
    by (simp add: test_project_def fixedProviders_def)
qed

text \<open>
  The claim as stated fails on the test "should correctly merge provider configurations
  using JSON Merge Patch": the user's fragment \<open>{name: "container", newKey: "foo"}\<close> is
  merged into the built-in entry, which is then no longer \<open>{name: "container"}\<close>.
\<close>

theorem pickEnvironment_builtin_providers_counterexample:
  "pickEnvironment test_defaults no_files (test_project\<lparr>proj_providers := patch_test_providers\<rparr>)
     ''default'' =
     Inr \<lparr>re_environmentName = ''default'', re_namespace = None, re_production = False,
          re_providers = [\<lparr>pc_name = ''exec'', pc_fields = []\<rparr>,
                          \<lparr>pc_name = ''container'', pc_fields = [(''newKey'', JStr ''foo'')]\<rparr>,
                          \<lparr>pc_name = ''my-provider'',
                             pc_fields = [(''a'', JStr ''c''), (''b'', JStr ''b'')]\<rparr>],
          re_variables = []\<rparr>
   \<and> [\<lparr>pc_name = ''exec'', pc_fields = []\<rparr>,
       \<lparr>pc_name = ''container'', pc_fields = [(''newKey'', JStr ''foo'')]\<rparr>] \<noteq> fixedProviders"
  by (simp add: pick_eval patch_test_providers_def)

subsection \<open>Varfiles\<close>

lemma pickEnvironment_after_selection:
  assumes "selectEnvironment config env = Inr (environmentConfig, environment, namespace)"
  shows "pickEnvironment defaults files config env =
     (case loadVarfile files (proj_path config)
             (varfile_path (proj_varfile config) (defaultVarfilePath defaults))
             (varfile_required (proj_varfile config) (defaultVarfilePath defaults)) of
        Inl e \<Rightarrow> Inl e
      | Inr projectVarfileVars \<Rightarrow>
          (case loadVarfile files (proj_path config)
                  (varfile_path (env_varfile environmentConfig)
                     (defaultEnvVarfilePath defaults environment))
                  (varfile_required (env_varfile environmentConfig)
                     (defaultEnvVarfilePath defaults environment)) of
             Inl e \<Rightarrow> Inl e
           | Inr envVarfileVars \<Rightarrow>
               Inr \<lparr>re_environmentName = environment, re_namespace = namespace,
                    re_production = (case env_production environmentConfig of
                                       Some b \<Rightarrow> b | None \<Rightarrow> False),
                    re_providers =
                      mergeProviders
                        (fixedProviders @ filter (applies_to environment) (proj_providers config)),
                    re_variables =
                      merge_variables
                        [proj_variables config, projectVarfileVars,
                         env_variables environmentConfig, envVarfileVars]\<rparr>))"
  using assms by (simp add: pickEnvironment_def)

text \<open>
  Claim C8. A varfile that is absent loads as the empty mapping when it is not required,
  and fails with the \<open>ConfigurationError\<close> "Could not find varfile at path '<path>'",
  the path as configured, when it is required. In \<open>pickEnvironment\<close>, once the
  environment is selected, a varfile is required exactly when its path was set to
  something else than the default: a missing project varfile at a non-default path fails
  the selection with that message; so does a missing environment varfile at a non-default
  path when the project varfile did not fail; and when both varfiles are absent at their
  default paths the selection succeeds, each contributing the empty mapping. In general,
  when no required varfile is missing the selection succeeds, and every absent varfile
  contributes the empty mapping.
\<close>

theorem varfile_absent:
  assumes sel: "selectEnvironment config env = Inr (environmentConfig, environment, namespace)"
  shows "(\<forall>path. files (proj_path config) path = None \<longrightarrow>
            loadVarfile files (proj_path config) path False = Inr [] \<and>
            loadVarfile files (proj_path config) path True =
              Inl (ConfigurationError
                     (''Could not find varfile at path '' @ [CHR 0x27] @ path @ [CHR 0x27])))
   \<and> (\<forall>path. proj_varfile config = Some path \<and> path \<noteq> defaultVarfilePath defaults \<and>
          files (proj_path config) path = None \<longrightarrow>
          pickEnvironment defaults files config env =
            Inl (ConfigurationError
                   (''Could not find varfile at path '' @ [CHR 0x27] @ path @ [CHR 0x27])))
   \<and> (\<forall>path. \<not> (varfile_required (proj_varfile config) (defaultVarfilePath defaults) \<and>
               files (proj_path config)
                 (varfile_path (proj_varfile config) (defaultVarfilePath defaults)) = None) \<and>
          env_varfile environmentConfig = Some path \<and>
          path \<noteq> defaultEnvVarfilePath defaults environment \<and>
          files (proj_path config) path = None \<longrightarrow>
          pickEnvironment defaults files config env =
            Inl (ConfigurationError
                   (''Could not find varfile at path '' @ [CHR 0x27] @ path @ [CHR 0x27])))
   \<and> (proj_varfile config \<in> {None, Some (defaultVarfilePath defaults)} \<and>
       env_varfile environmentConfig \<in> {None, Some (defaultEnvVarfilePath defaults environment)} \<and>
       files (proj_path config) (defaultVarfilePath defaults) = None \<and>
       files (proj_path config) (defaultEnvVarfilePath defaults environment) = None \<longrightarrow>
       (\<exists>r. pickEnvironment defaults files config env = Inr r \<and>
            re_variables r =
              merge_variables [proj_variables config, [], env_variables environmentConfig, []]))
   \<and> (\<not> (varfile_required (proj_varfile config) (defaultVarfilePath defaults) \<and>
           files (proj_path config)
             (varfile_path (proj_varfile config) (defaultVarfilePath defaults)) = None) \<and>
       \<not> (varfile_required (env_varfile environmentConfig)
             (defaultEnvVarfilePath defaults environment) \<and>
           files (proj_path config)
             (varfile_path (env_varfile environmentConfig)
                (defaultEnvVarfilePath defaults environment)) = None) \<longrightarrow>
       (\<exists>r. pickEnvironment defaults files config env = Inr r \<and>
            re_variables r =
              merge_variables
                [proj_variables config,
                 (case files (proj_path config)
                         (varfile_path (proj_varfile config) (defaultVarfilePath defaults)) of
                    Some vars \<Rightarrow> vars | None \<Rightarrow> []),
                 env_variables environmentConfig,
                 (case files (proj_path config)
                         (varfile_path (env_varfile environmentConfig)
                            (defaultEnvVarfilePath defaults environment)) of
                    Some vars \<Rightarrow> vars | None \<Rightarrow> [])]))"
proof (intro conjI allI impI)
  fix path
  assume "files (proj_path config) path = None"
  then show "loadVarfile files (proj_path config) path False = Inr []"
    and "loadVarfile files (proj_path config) path True =
              Inl (ConfigurationError
                     (''Could not find varfile at path '' @ [CHR 0x27] @ path @ [CHR 0x27]))"
    by (simp_all add: loadVarfile_def varfile_not_found_def quoted_def)
next
  fix path
  assume "proj_varfile config = Some path \<and> path \<noteq> defaultVarfilePath defaults \<and>
          files (proj_path config) path = None"
  then show "pickEnvironment defaults files config env =
            Inl (ConfigurationError
                   (''Could not find varfile at path '' @ [CHR 0x27] @ path @ [CHR 0x27]))"
    unfolding pickEnvironment_after_selection [OF sel]
    by (simp add: loadVarfile_def varfile_required_def varfile_path_def varfile_not_found_def
          quoted_def)
next
  fix path
  assume a: "\<not> (varfile_required (proj_varfile config) (defaultVarfilePath defaults) \<and>
               files (proj_path config)
                 (varfile_path (proj_varfile config) (defaultVarfilePath defaults)) = None) \<and>
          env_varfile environmentConfig = Some path \<and>
          path \<noteq> defaultEnvVarfilePath defaults environment \<and>
          files (proj_path config) path = None"
  then have "\<exists>vars. loadVarfile files (proj_path config)
             (varfile_path (proj_varfile config) (defaultVarfilePath defaults))
             (varfile_required (proj_varfile config) (defaultVarfilePath defaults)) = Inr vars"
    by (cases "files (proj_path config)
                 (varfile_path (proj_varfile config) (defaultVarfilePath defaults))")
       (auto simp: loadVarfile_def)
  then obtain vars where "loadVarfile files (proj_path config)
             (varfile_path (proj_varfile config) (defaultVarfilePath defaults))
             (varfile_required (proj_varfile config) (defaultVarfilePath defaults)) = Inr vars"
    by blast
  with a show "pickEnvironment defaults files config env =
            Inl (ConfigurationError
                   (''Could not find varfile at path '' @ [CHR 0x27] @ path @ [CHR 0x27]))"
    unfolding pickEnvironment_after_selection [OF sel]
    by (simp add: loadVarfile_def varfile_required_def varfile_path_def varfile_not_found_def
          quoted_def)
next
  assume "proj_varfile config \<in> {None, Some (defaultVarfilePath defaults)} \<and>
       env_varfile environmentConfig \<in> {None, Some (defaultEnvVarfilePath defaults environment)} \<and>
       files (proj_path config) (defaultVarfilePath defaults) = None \<and>
       files (proj_path config) (defaultEnvVarfilePath defaults environment) = None"
  then show "\<exists>r. pickEnvironment defaults files config env = Inr r \<and>
            re_variables r =
              merge_variables [proj_variables config, [], env_variables environmentConfig, []]"
    unfolding pickEnvironment_after_selection [OF sel]
    by (auto simp: loadVarfile_def varfile_required_def varfile_path_def)
next
  assume "\<not> (varfile_required (proj_varfile config) (defaultVarfilePath defaults) \<and>
           files (proj_path config)
             (varfile_path (proj_varfile config) (defaultVarfilePath defaults)) = None) \<and>
       \<not> (varfile_required (env_varfile environmentConfig)
             (defaultEnvVarfilePath defaults environment) \<and>
           files (proj_path config)
             (varfile_path (env_varfile environmentConfig)
                (defaultEnvVarfilePath defaults environment)) = None)"
  then show "\<exists>r. pickEnvironment defaults files config env = Inr r \<and>
            re_variables r =
              merge_variables
                [proj_variables config,
                 (case files (proj_path config)
                         (varfile_path (proj_varfile config) (defaultVarfilePath defaults)) of
                    Some vars \<Rightarrow> vars | None \<Rightarrow> []),
                 env_variables environmentConfig,
                 (case files (proj_path config)
                         (varfile_path (env_varfile environmentConfig)
                            (defaultEnvVarfilePath defaults environment)) of
                    Some vars \<Rightarrow> vars | None \<Rightarrow> [])]"
    unfolding pickEnvironment_after_selection [OF sel]
    by (auto simp: loadVarfile_def split: option.splits)
qed

theorem varfile_absent_witness:
  "selectEnvironment test_project ''default'' =
     Inr (\<lparr>env_name = ''default'', env_namespacing = None, env_production = None,
            env_variables = [], env_varfile = None\<rparr>, ''default'', None)
   \<and> pickEnvironment test_defaults no_files (test_project\<lparr>proj_varfile := Some ''foo.env''\<rparr>)
       ''default'' =
      Inl (ConfigurationError (''Could not find varfile at path '' @ [CHR 0x27] @ ''foo.env'' @ [CHR 0x27]))
   \<and> pickEnvironment test_defaults no_files
       (test_project\<lparr>proj_environments :=
          [\<lparr>env_name = ''default'', env_namespacing = None, env_production = None,
             env_variables = [], env_varfile = Some ''foo.env''\<rparr>]\<rparr>) ''default'' =
      Inl (ConfigurationError (''Could not find varfile at path '' @ [CHR 0x27] @ ''foo.env'' @ [CHR 0x27]))
   \<and> re_variables (projr (pickEnvironment test_defaults no_files test_project ''default'')) = []"
proof -
  have s1: "selectEnvironment test_project ''default'' =
     Inr (\<lparr>env_name = ''default'', env_namespacing = None, env_production = None,
            env_variables = [], env_varfile = None\<rparr>, ''default'', None)"
    by (simp add: pick_eval)
  have s2: "selectEnvironment (test_project\<lparr>proj_varfile := Some ''foo.env''\<rparr>) ''default'' =
     Inr (\<lparr>env_name = ''default'', env_namespacing = None, env_production = None,
            env_variables = [], env_varfile = None\<rparr>, ''default'', None)"
    by (simp add: pick_eval)
  have s3: "selectEnvironment (test_project\<lparr>proj_environments :=
          [\<lparr>env_name = ''default'', env_namespacing = None, env_production = None,
             env_variables = [], env_varfile = Some ''foo.env''\<rparr>]\<rparr>) ''default'' =
     Inr (\<lparr>env_name = ''default'', env_namespacing = None, env_production = None,
            env_variables = [], env_varfile = Some ''foo.env''\<rparr>, ''default'', None)"
    by (simp add: pick_eval)
  from varfile_absent [OF s1, of no_files test_defaults]
       varfile_absent [OF s2, of no_files test_defaults]
       varfile_absent [OF s3, of no_files test_defaults] s1
  show ?thesis
    by (simp add: pick_eval)
qed

subsection \<open>What the unit tests expect\<close>

text \<open>The expectations of the tests of \<open>pickEnvironment\<close> and \<open>parseEnvironment\<close> that the
  theorems above do not already evaluate. The tests compare objects whatever the order
  of their keys; the results below list the keys in the order of the merge.\<close>

lemma test_merge_project_and_environment_variables:
  "re_variables (projr (pickEnvironment test_defaults no_files merge_test_project ''default'')) =
     [(''a'', JStr ''project value A''), (''b'', JStr ''env value B''),
      (''array'', JArr [JObj [(''projectArrayKey'', JStr ''project array value''),
                              (''envArrayKey'', JStr ''env array value'')]]),
      (''nested'', JObj [(''nestedA'', JStr ''nested project value A''),
                         (''nestedB'', JStr ''nested env value B''),
                         (''nestedC'', JStr ''nested env value C'')]),
      (''c'', JStr ''env value C'')]"
  by (simp add: pick_eval merge_test_project_def)

lemma test_variable_sources_in_precedence_order:
  "re_variables (projr (pickEnvironment test_defaults precedence_test_files
                          precedence_test_project ''default'')) =
     [(''a'', JStr ''a''), (''b'', JStr ''B''), (''c'', JStr ''C''), (''d'', JStr ''D''),
      (''e'', JStr ''e'')]"
  by (simp add: pick_eval precedence_test_project_def precedence_test_files_def)

lemma test_environment_namespace:
  "pickEnvironment test_defaults no_files test_project ''foo.default'' =
     Inr \<lparr>re_environmentName = ''default'', re_namespace = Some ''foo'', re_production = False,
          re_providers = [\<lparr>pc_name = ''exec'', pc_fields = []\<rparr>,
                          \<lparr>pc_name = ''container'', pc_fields = []\<rparr>],
          re_variables = []\<rparr>"
  by (simp add: pick_eval)

lemma test_environment_not_configured:
  "pickEnvironment test_defaults no_files test_project ''foo'' = Inl (ParameterError ''foo'')"
  by (simp add: pick_eval)

lemma test_invalid_environment:
  "pickEnvironment test_defaults no_files test_project ''$.%'' =
     Inl (ConfigurationError
       ''Invalid environment specified ($.%): must be a valid environment name or <namespace>.<environment>'')"
  by (simp add: pick_eval)

lemma test_namespace_required:
  "pickEnvironment test_defaults no_files
     (test_project\<lparr>proj_environments :=
        [\<lparr>env_name = ''default'', env_namespacing = Some Required, env_production = None,
           env_variables = [], env_varfile = None\<rparr>]\<rparr>) ''default'' =
     Inl (ConfigurationError ''Environment default requires a namespace, but none was specified.'')"
  by (simp add: pick_eval)

lemma test_namespace_disabled:
  "pickEnvironment test_defaults no_files
     (test_project\<lparr>proj_environments :=
        [\<lparr>env_name = ''default'', env_namespacing = Some Disabled, env_production = None,
           env_variables = [], env_varfile = None\<rparr>]\<rparr>) ''foo.default'' =
     Inl (ConfigurationError
       (''Environment default does not allow namespacing, but namespace '' @ quoted ''foo'' @
        '' was specified.''))"
  by (simp add: pick_eval)

lemma test_parseEnvironment:
  "parseEnvironment ''env'' = Inr (''env'', None)"
  "parseEnvironment ''ns.env'' = Inr (''env'', Some ''ns'')"
  "parseEnvironment ''a.b.c'' =
     Inl (ConfigurationError
            ''Invalid environment specified (a.b.c): may only contain a single delimiter'')"
  "parseEnvironment ''&.$'' =
     Inl (ConfigurationError
       ''Invalid environment specified (&.$): must be a valid environment name or <namespace>.<environment>'')"
  by (simp_all add: parseEnvironment_def valid_segment_def)

end
